theory Spec2Isabelle
  imports Main "HOL-Library.AList"
begin

section \<open>Object model\<close>

text \<open>
  The Kubernetes objects the reconcilers read and write, reduced to the fields the
  controllers under \<^verbatim>\<open>controllers/\<close> and the helpers under
  \<^verbatim>\<open>internal/utils/kubernetes\<close> touch.  \<^verbatim>\<open>metav1.Now()\<close> is a reading of the
  clock: the reconcilers carry the time they stamp conditions with.  Generations and
  replica counts are Go's \<^verbatim>\<open>int64\<close> and \<^verbatim>\<open>int32\<close>; the controllers compare
  them and never compute with them, so they are integers here.
\<close>

datatype ConditionStatus = ConditionTrue | ConditionFalse | ConditionUnknown

record Condition =
  cond_Type :: string
  cond_Status :: ConditionStatus
  cond_ObservedGeneration :: int
  cond_LastTransitionTime :: nat
  cond_Reason :: string
  cond_Message :: string

record OwnerReference =
  ref_Kind :: string
  ref_Name :: string
  ref_UID :: string

text \<open>
  \<open>Labels\<close> is a Go map: \<open>None\<close> is the nil map, \<open>Some kvs\<close> a map holding the
  bindings \<open>kvs\<close> (read with \<open>map_of\<close>).  \<open>OwnerReferences\<close> is a slice; the nil slice
  and the empty slice are both \<open>[]\<close>.
\<close>

record ObjectMeta =
  Name :: string
  GenerateName :: string
  Namespace :: string
  UID :: string
  Generation :: int
  Labels :: "(string \<times> string) list option"
  OwnerReferences :: "OwnerReference list"

record DeploymentOptions =
  opt_Replicas :: "int option"
  opt_ContainerImage :: "string option"
  opt_Env :: "(string \<times> string) list"
  opt_EnvFrom :: "string list"

record DataPlane =
  dp_ObjectMeta :: ObjectMeta
  dp_Spec :: DeploymentOptions
  dp_Conditions :: "Condition list"

record LoadBalancerIngress =
  ing_IP :: string
  ing_Hostname :: string

record Service =
  svc_ObjectMeta :: ObjectMeta
  svc_ClusterIP :: string
  svc_Ingress :: "LoadBalancerIngress list"

record Secret =
  secret_ObjectMeta :: ObjectMeta

record Container =
  ctr_Image :: string
  ctr_Env :: "(string \<times> string) list"

record Deployment =
  dep_ObjectMeta :: ObjectMeta
  dep_Replicas :: "int option"
  dep_Containers :: "Container list"
  dep_StatusReplicas :: int
  dep_AvailableReplicas :: int

record GatewayAddress =
  addr_Type :: "string option"
  addr_Value :: string

record Gateway =
  gw_ObjectMeta :: ObjectMeta
  gw_GatewayClassName :: string
  gw_Conditions :: "Condition list"
  gw_Addresses :: "GatewayAddress list"

record ParametersReference =
  pr_Group :: string
  pr_Kind :: string
  pr_Namespace :: "string option"
  pr_Name :: string

record GatewayClass =
  gwc_ObjectMeta :: ObjectMeta
  gwc_ControllerName :: string
  gwc_ParametersRef :: "ParametersReference option"

text \<open>
  The deployment options of a ControlPlane embed the common ones and add the reference
  to the DataPlane (\<^verbatim>\<open>Spec.DataPlane\<close>, a pointer to a string).
\<close>

record ControlPlaneDeploymentOptions =
  cpo_DeploymentOptions :: DeploymentOptions
  cpo_DataPlane :: "string option"

record ControlPlane =
  cp_ObjectMeta :: ObjectMeta
  cp_Spec :: ControlPlaneDeploymentOptions
  cp_GatewayClass :: "string option"
  cp_Conditions :: "Condition list"

record GatewayConfiguration =
  cfg_ObjectMeta :: ObjectMeta
  cfg_DataPlaneDeploymentOptions :: "DeploymentOptions option"
  cfg_ControlPlaneDeploymentOptions :: "ControlPlaneDeploymentOptions option"

text \<open>
  Errors are values.  \<open>NotFound\<close> and \<open>Conflict\<close> are the two API status errors the
  controllers test for (\<^verbatim>\<open>k8serrors.IsNotFound\<close>, \<^verbatim>\<open>k8serrors.IsConflict\<close>);
  \<open>APIError\<close> is any other error of the API server or the transport.  The remaining
  constructors are the errors the controllers build themselves and the two run-time
  panics their code can raise.
\<close>

datatype error =
    NotFound
  | Conflict
  | APIError string
  | ErrUnsupportedGateway
  | ErrObjectMissingParametersRef string
  | UnsupportedParametersRef string
  | InvalidParametersRef string
  | TooManyServices nat
  | NoServicesFound string string
  | NoClusterIP string
  | NilMapAssignment
  | IndexOutOfRange

definition IsNotFound :: "error \<Rightarrow> bool" where
  "IsNotFound e = (e = NotFound)"

definition IsConflict :: "error \<Rightarrow> bool" where
  "IsConflict e = (e = Conflict)"

text \<open>\<^verbatim>\<open>ctrl.Result\<close>; the zero value is \<open>Result0\<close>.\<close>

record Result =
  Requeue :: bool
  RequeueAfter :: nat

definition Result0 :: Result where
  "Result0 = \<lparr>Requeue = False, RequeueAfter = 0\<rparr>"

section \<open>The DataPlane reconciler\<close>

text \<open>
  Modelled from the spec: the constants \<^verbatim>\<open>DataPlaneConditionTypeProvisioned\<close>,
  \<^verbatim>\<open>DataPlaneConditionReasonPodsNotReady\<close>, \<^verbatim>\<open>DataPlaneConditionReasonPodsReady\<close>
  and \<^verbatim>\<open>DataPlaneConditionValidationFailed\<close> are declared outside the sources
  modelled here; the condition vocabulary of the specification names them \<open>Provisioned\<close>,
  \<open>PodsNotReady\<close>, \<open>PodsReady\<close> and \<open>ValidationFailed\<close>.
\<close>

definition DataPlaneConditionTypeProvisioned :: string where
  "DataPlaneConditionTypeProvisioned = ''Provisioned''"

definition DataPlaneConditionReasonPodsNotReady :: string where
  "DataPlaneConditionReasonPodsNotReady = ''PodsNotReady''"

definition DataPlaneConditionReasonPodsReady :: string where
  "DataPlaneConditionReasonPodsReady = ''PodsReady''"

definition DataPlaneConditionValidationFailed :: string where
  "DataPlaneConditionValidationFailed = ''ValidationFailed''"

text \<open>
  What a pass of the DataPlane reconciler does that is visible outside it, in the order
  it happens: the writes it submits to the API server, the event it records, and its
  calls of the ensurers of the owned Service, TLS Secret and Deployment.
\<close>

datatype action =
    StatusUpdated DataPlane
  | SpecUpdated DataPlane
  | EventRecorded string string string
  | ServiceEnsured
  | ServiceStatusEnsured string
  | CertificateEnsured string
  | DeploymentEnsured string

text \<open>
  The receiver \<^verbatim>\<open>r *DataPlaneReconciler\<close>.  A pass does not decide what the API
  server answers, so the answers are fields of the receiver: \<open>r_Get\<close> is the answer to
  the read of the reconciled object, \<open>r_GetCurrent\<close> the answer to the read inside
  \<^verbatim>\<open>updateStatus\<close>, \<open>r_StatusUpdate\<close> and \<open>r_Update\<close> map the object submitted to
  \<open>None\<close> (accepted) or the error returned.  \<open>r_now\<close> is the clock.  \<open>actions\<close>
  collects what the pass did.

  The methods and helpers that \<^verbatim>\<open>Reconcile\<close> calls and that are defined outside the
  sources modelled here are fields as well, each with the type of its call site:
  \<^verbatim>\<open>k8sutils.InitReady\<close>, \<^verbatim>\<open>r.ensureIsMarkedScheduled\<close> and
  \<^verbatim>\<open>r.ensureIsMarkedProvisioned\<close> change the object in memory,
  \<^verbatim>\<open>k8sutils.NeedsUpdate\<close> compares two objects,
  \<^verbatim>\<open>dataplaneutils.SetDataPlaneDefaults\<close> rewrites the deployment options, the
  validator returns \<open>None\<close> or the message of its error, and the three-result
  ensurers return an error or the pair of \<^verbatim>\<open>createdOrUpdated\<close> and the object.
  \<^verbatim>\<open>requeueWithoutBackoff\<close> is a constant of the package.
\<close>

record DataPlaneReconciler =
  r_Get :: "error + DataPlane"
  r_GetCurrent :: "error + DataPlane"
  r_StatusUpdate :: "DataPlane \<Rightarrow> error option"
  r_Update :: "DataPlane \<Rightarrow> error option"
  r_now :: nat
  r_InitReady :: "DataPlane \<Rightarrow> DataPlane"
  r_ensureIsMarkedScheduled :: "DataPlane \<Rightarrow> bool \<times> DataPlane"
  r_ensureIsMarkedProvisioned :: "DataPlane \<Rightarrow> DataPlane"
  r_NeedsUpdate :: "DataPlane \<Rightarrow> DataPlane \<Rightarrow> bool"
  r_SetDataPlaneDefaults :: "DeploymentOptions \<Rightarrow> DeploymentOptions"
  r_Validate :: "DataPlane \<Rightarrow> string option"
  r_ensureServiceForDataPlane :: "DataPlane \<Rightarrow> error + (bool \<times> Service)"
  r_ensureDataPlaneServiceStatus :: "DataPlane \<Rightarrow> string \<Rightarrow> error option"
  r_ensureCertificate :: "DataPlane \<Rightarrow> string \<Rightarrow> error + (bool \<times> Secret)"
  r_ensureDeploymentForDataPlane :: "DataPlane \<Rightarrow> string \<Rightarrow> error + (bool \<times> Deployment)"
  requeueWithoutBackoff :: nat
  actions :: "action list"

definition did :: "action \<Rightarrow> DataPlaneReconciler \<Rightarrow> DataPlaneReconciler" where
  "did a r = r\<lparr>actions := actions r @ [a]\<rparr>"

text \<open>\<^verbatim>\<open>r.Status().Update(ctx, dataplane)\<close> and \<^verbatim>\<open>r.Client.Update(ctx, dataplane)\<close>.\<close>

definition StatusUpdate :: "DataPlaneReconciler \<Rightarrow> DataPlane \<Rightarrow> error option \<times> DataPlaneReconciler" where
  "StatusUpdate r dataplane = (r_StatusUpdate r dataplane, did (StatusUpdated dataplane) r)"

definition Update :: "DataPlaneReconciler \<Rightarrow> DataPlane \<Rightarrow> error option \<times> DataPlaneReconciler" where
  "Update r dataplane = (r_Update r dataplane, did (SpecUpdated dataplane) r)"

subsection \<open>Status management\<close>

text \<open>
  Each writer returns its Go results, the DataPlane as the caller's pointer sees it
  afterwards, and the receiver.
\<close>

definition ensureDataPlaneIsMarkedScheduled ::
  "DataPlaneReconciler \<Rightarrow> DataPlane \<Rightarrow> (bool \<times> error option) \<times> DataPlane \<times> DataPlaneReconciler" where
  "ensureDataPlaneIsMarkedScheduled r dataplane =
     (let isScheduled =
            list_ex (\<lambda>condition. cond_Type condition = DataPlaneConditionTypeProvisioned)
              (dp_Conditions dataplane)
      in if \<not> isScheduled then
           let dataplane' = dataplane\<lparr>dp_Conditions := dp_Conditions dataplane @
                 [\<lparr>cond_Type = DataPlaneConditionTypeProvisioned,
                   cond_Status = ConditionFalse,
                   cond_ObservedGeneration = Generation (dp_ObjectMeta dataplane),
                   cond_LastTransitionTime = r_now r,
                   cond_Reason = DataPlaneConditionReasonPodsNotReady,
                   cond_Message = ''DataPlane resource is scheduled for provisioning''\<rparr>]\<rparr>
           in case StatusUpdate r dataplane' of (err, r') \<Rightarrow> ((True, err), dataplane', r')
         else ((False, None), dataplane, r))"

definition ensureDataPlaneIsMarkedProvisioned ::
  "DataPlaneReconciler \<Rightarrow> DataPlane \<Rightarrow> error option \<times> DataPlane \<times> DataPlaneReconciler" where
  "ensureDataPlaneIsMarkedProvisioned r dataplane =
     (let updatedConditions =
            map (\<lambda>condition.
                   if cond_Type condition = DataPlaneConditionTypeProvisioned
                   then condition\<lparr>cond_Status := ConditionTrue,
                          cond_Reason := DataPlaneConditionReasonPodsReady,
                          cond_Message := ''pods for all Deployments are ready'',
                          cond_ObservedGeneration := Generation (dp_ObjectMeta dataplane),
                          cond_LastTransitionTime := r_now r\<rparr>
                   else condition)
              (dp_Conditions dataplane);
          dataplane' = dataplane\<lparr>dp_Conditions := updatedConditions\<rparr>
      in case StatusUpdate r dataplane' of (err, r') \<Rightarrow> (err, dataplane', r'))"

definition isSameDataPlaneCondition :: "Condition \<Rightarrow> Condition \<Rightarrow> bool" where
  "isSameDataPlaneCondition condition1 condition2 =
     (cond_Type condition1 = cond_Type condition2 \<and>
      cond_Status condition1 = cond_Status condition2 \<and>
      cond_Reason condition1 = cond_Reason condition2 \<and>
      cond_Message condition1 = cond_Message condition2)"

text \<open>
  The loop of \<^verbatim>\<open>ensureDataPlaneIsMarkedNotProvisioned\<close> walks the slice with its
  index and overwrites \<^verbatim>\<open>Conditions[i]\<close> in place; the range expression was
  evaluated once, so each entry is compared as it was before the loop.  The result is
  the slice, \<open>conditionFound\<close> and \<open>shouldUpdate\<close>.
\<close>

fun markNotProvisionedLoop ::
  "Condition \<Rightarrow> Condition list \<Rightarrow> Condition list \<times> bool \<times> bool" where
  "markNotProvisionedLoop notProvisionedCondition [] = ([], False, False)"
| "markNotProvisionedLoop notProvisionedCondition (condition # rest) =
     (case markNotProvisionedLoop notProvisionedCondition rest of
        (rest', conditionFound, shouldUpdate) \<Rightarrow>
          if cond_Type condition = DataPlaneConditionTypeProvisioned then
            if \<not> isSameDataPlaneCondition notProvisionedCondition condition
            then (notProvisionedCondition # rest', True, True)
            else (condition # rest', True, shouldUpdate)
          else (condition # rest', conditionFound, shouldUpdate))"

definition ensureDataPlaneIsMarkedNotProvisioned ::
  "DataPlaneReconciler \<Rightarrow> DataPlane \<Rightarrow> string \<Rightarrow> string \<Rightarrow>
   error option \<times> DataPlane \<times> DataPlaneReconciler" where
  "ensureDataPlaneIsMarkedNotProvisioned r dataplane reason message =
     (let notProvisionedCondition =
            \<lparr>cond_Type = DataPlaneConditionTypeProvisioned,
             cond_Status = ConditionFalse,
             cond_ObservedGeneration = Generation (dp_ObjectMeta dataplane),
             cond_LastTransitionTime = r_now r,
             cond_Reason = reason,
             cond_Message = message\<rparr>
      in case markNotProvisionedLoop notProvisionedCondition (dp_Conditions dataplane) of
        (conditions, conditionFound, shouldUpdate) \<Rightarrow>
          let conditions' = (if \<not> conditionFound then conditions @ [notProvisionedCondition]
                             else conditions);
              shouldUpdate' = (shouldUpdate \<or> \<not> conditionFound);
              dataplane' = dataplane\<lparr>dp_Conditions := conditions'\<rparr>
          in if shouldUpdate'
             then case StatusUpdate r dataplane' of (err, r') \<Rightarrow> (err, dataplane', r')
             else (None, dataplane', r))"

text \<open>The invariant of the data model: at most one entry per condition type.\<close>

definition oneEntryPerType :: "Condition list \<Rightarrow> bool" where
  "oneEntryPerType conditions = distinct (map cond_Type conditions)"

subsection \<open>Reconciliation\<close>

text \<open>
  \<^verbatim>\<open>updateStatus\<close> reads the stored object first.  When that read answers NotFound
  the variable \<^verbatim>\<open>current\<close> keeps the zero value it was allocated with.
\<close>

definition emptyObjectMeta :: ObjectMeta where
  "emptyObjectMeta = \<lparr>Name = [], GenerateName = [], Namespace = [], UID = [], Generation = 0,
     Labels = None, OwnerReferences = []\<rparr>"

definition emptyDeploymentOptions :: DeploymentOptions where
  "emptyDeploymentOptions =
     \<lparr>opt_Replicas = None, opt_ContainerImage = None, opt_Env = [], opt_EnvFrom = []\<rparr>"

definition emptyDataPlane :: DataPlane where
  "emptyDataPlane = \<lparr>dp_ObjectMeta = emptyObjectMeta, dp_Spec = emptyDeploymentOptions,
     dp_Conditions = []\<rparr>"

definition updateStatus :: "DataPlaneReconciler \<Rightarrow> DataPlane \<Rightarrow> error option \<times> DataPlaneReconciler" where
  "updateStatus r updated =
     (case r_GetCurrent r of
        Inl err \<Rightarrow>
          if \<not> IsNotFound err then (Some err, r)
          else if r_NeedsUpdate r emptyDataPlane updated then StatusUpdate r updated
          else (None, r)
      | Inr current \<Rightarrow>
          if r_NeedsUpdate r current updated then StatusUpdate r updated
          else (None, r))"

text \<open>
  \<^verbatim>\<open>Reconcile\<close>, cut at its comments into the steps it names.  Each step either
  returns or hands the object on to the next.
\<close>

definition checkDeploymentReadiness ::
  "DataPlaneReconciler \<Rightarrow> DataPlane \<Rightarrow> Deployment \<Rightarrow> (Result \<times> error option) \<times> DataPlaneReconciler" where
  "checkDeploymentReadiness r dataplane dataplaneDeployment =
     (if dep_StatusReplicas dataplaneDeployment = 0 \<or>
         dep_AvailableReplicas dataplaneDeployment < dep_StatusReplicas dataplaneDeployment
      then ((Result0, None), r)
      else
        let dataplane' = r_ensureIsMarkedProvisioned r dataplane
        in case updateStatus r dataplane' of
             (Some err, r') \<Rightarrow>
               if IsConflict err
               then ((\<lparr>Requeue = True, RequeueAfter = requeueWithoutBackoff r\<rparr>, None), r')
               else ((Result0, Some err), r')
           | (None, r') \<Rightarrow> ((Result0, None), r'))"

definition ensureOwnedSecretAndDeployment ::
  "DataPlaneReconciler \<Rightarrow> DataPlane \<Rightarrow> Service \<Rightarrow> (Result \<times> error option) \<times> DataPlaneReconciler" where
  "ensureOwnedSecretAndDeployment r dataplane dataplaneService =
     (let r1 = did (CertificateEnsured (Name (svc_ObjectMeta dataplaneService))) r
      in case r_ensureCertificate r dataplane (Name (svc_ObjectMeta dataplaneService)) of
           Inl err \<Rightarrow> ((Result0, Some err), r1)
         | Inr (createdOrUpdated, certSecret) \<Rightarrow>
             if createdOrUpdated then ((Result0, None), r1)
             else
               let r2 = did (DeploymentEnsured (Name (secret_ObjectMeta certSecret))) r1
               in case r_ensureDeploymentForDataPlane r dataplane
                         (Name (secret_ObjectMeta certSecret)) of
                    Inl err \<Rightarrow> ((Result0, Some err), r2)
                  | Inr (createdOrUpdated', dataplaneDeployment) \<Rightarrow>
                      if createdOrUpdated' then ((Result0, None), r2)
                      else checkDeploymentReadiness r2 dataplane dataplaneDeployment)"

definition validateDataPlane ::
  "DataPlaneReconciler \<Rightarrow> DataPlane \<Rightarrow> Service \<Rightarrow> (Result \<times> error option) \<times> DataPlaneReconciler" where
  "validateDataPlane r dataplane dataplaneService =
     (if length (opt_Env (dp_Spec dataplane)) = 0 \<and> length (opt_EnvFrom (dp_Spec dataplane)) = 0
      then
        let dataplane' = dataplane\<lparr>dp_Spec := r_SetDataPlaneDefaults r (dp_Spec dataplane)\<rparr>
        in case Update r dataplane' of
             (Some err, r') \<Rightarrow>
               if IsConflict err
               then ((\<lparr>Requeue = True, RequeueAfter = requeueWithoutBackoff r\<rparr>, None), r')
               else ((Result0, Some err), r')
           | (None, r') \<Rightarrow> ((Result0, None), r')
      else case r_Validate r dataplane of
             Some errMessage \<Rightarrow>
               let r1 = did (EventRecorded ''Warning'' ''ValidationFailed'' errMessage) r
               in case ensureDataPlaneIsMarkedNotProvisioned r1 dataplane
                         DataPlaneConditionValidationFailed errMessage of
                    (markErr, dataplane', r2) \<Rightarrow> ((Result0, markErr), r2)
           | None \<Rightarrow> ensureOwnedSecretAndDeployment r dataplane dataplaneService)"

definition exposeDataPlane ::
  "DataPlaneReconciler \<Rightarrow> DataPlane \<Rightarrow> (Result \<times> error option) \<times> DataPlaneReconciler" where
  "exposeDataPlane r dataplane =
     (let r1 = did ServiceEnsured r
      in case r_ensureServiceForDataPlane r dataplane of
           Inl err \<Rightarrow> ((Result0, Some err), r1)
         | Inr (createdOrUpdated, dataplaneService) \<Rightarrow>
             if createdOrUpdated
             then ((Result0, r_ensureDataPlaneServiceStatus r dataplane
                               (Name (svc_ObjectMeta dataplaneService))),
                   did (ServiceStatusEnsured (Name (svc_ObjectMeta dataplaneService))) r1)
             else if svc_ClusterIP dataplaneService = []
             then ((Result0, None), r1)
             else validateDataPlane r1 dataplane dataplaneService)"

definition DataPlaneReconcile :: "DataPlaneReconciler \<Rightarrow> (Result \<times> error option) \<times> DataPlaneReconciler" where
  "DataPlaneReconcile r =
     (case r_Get r of
        Inl err \<Rightarrow>
          if IsNotFound err then ((Result0, None), r) else ((Result0, Some err), r)
      | Inr fetched \<Rightarrow>
          (case r_ensureIsMarkedScheduled r (r_InitReady r fetched) of
             (True, dataplane) \<Rightarrow>
               (case updateStatus r dataplane of (err, r') \<Rightarrow> ((Result0, err), r'))
           | (False, dataplane) \<Rightarrow> exposeDataPlane r dataplane))"

section \<open>The cluster and the client\<close>

text \<open>
  The objects the API server stores, by kind.  The controller-runtime client is the
  controllers' only access to them.  A request fails when the server or the transport
  says so, which no controller decides: \<open>c_faults\<close> gives, for the n-th request made on
  the cluster, \<open>None\<close> or the error it is answered with, and \<open>c_requests\<close> counts the
  requests made so far.  A request that is not answered with a fault is served from the
  stored objects.  Server-side completion of a created object (the name drawn from
  \<^verbatim>\<open>GenerateName\<close>, the UID) is not modelled: \<^verbatim>\<open>Create\<close> stores the object
  as submitted.  \<^verbatim>\<open>Update\<close> stores metadata and spec and keeps the stored status;
  \<^verbatim>\<open>Status().Update\<close> stores the status and keeps the rest.
\<close>

record cluster =
  c_GatewayClasses :: "GatewayClass list"
  c_GatewayConfigurations :: "GatewayConfiguration list"
  c_Gateways :: "Gateway list"
  c_DataPlanes :: "DataPlane list"
  c_ControlPlanes :: "ControlPlane list"
  c_Services :: "Service list"
  c_Deployments :: "Deployment list"
  c_faults :: "nat \<Rightarrow> error option"
  c_requests :: nat

definition request :: "cluster \<Rightarrow> error option \<times> cluster" where
  "request c = (c_faults c (c_requests c), c\<lparr>c_requests := Suc (c_requests c)\<rparr>)"

text \<open>
  \<^verbatim>\<open>client.InNamespace(namespace)\<close> with \<^verbatim>\<open>client.MatchingLabels{label: value}\<close>;
  the empty namespace selects every namespace.
\<close>

definition selected :: "string \<Rightarrow> string \<Rightarrow> string \<Rightarrow> ObjectMeta \<Rightarrow> bool" where
  "selected namespace requiredLabel requiredValue meta =
     ((namespace = [] \<or> Namespace meta = namespace) \<and>
      (case Labels meta of None \<Rightarrow> False
       | Some kvs \<Rightarrow> map_of kvs requiredLabel = Some requiredValue))"

definition sameKey :: "ObjectMeta \<Rightarrow> ObjectMeta \<Rightarrow> bool" where
  "sameKey meta meta' = (Namespace meta = Namespace meta' \<and> Name meta = Name meta')"

definition GetGateway :: "string \<Rightarrow> string \<Rightarrow> cluster \<Rightarrow> (error + Gateway) \<times> cluster" where
  "GetGateway namespace name c =
     (case request c of
        (Some err, c') \<Rightarrow> (Inl err, c')
      | (None, c') \<Rightarrow>
          (case find (\<lambda>g. Namespace (gw_ObjectMeta g) = namespace \<and> Name (gw_ObjectMeta g) = name)
                  (c_Gateways c') of
             None \<Rightarrow> (Inl NotFound, c')
           | Some g \<Rightarrow> (Inr g, c')))"

definition GetGatewayClass :: "string \<Rightarrow> cluster \<Rightarrow> (error + GatewayClass) \<times> cluster" where
  "GetGatewayClass name c =
     (case request c of
        (Some err, c') \<Rightarrow> (Inl err, c')
      | (None, c') \<Rightarrow>
          (case find (\<lambda>g. Name (gwc_ObjectMeta g) = name) (c_GatewayClasses c') of
             None \<Rightarrow> (Inl NotFound, c')
           | Some g \<Rightarrow> (Inr g, c')))"

definition GetGatewayConfiguration ::
  "string \<Rightarrow> string \<Rightarrow> cluster \<Rightarrow> (error + GatewayConfiguration) \<times> cluster" where
  "GetGatewayConfiguration namespace name c =
     (case request c of
        (Some err, c') \<Rightarrow> (Inl err, c')
      | (None, c') \<Rightarrow>
          (case find (\<lambda>g. Namespace (cfg_ObjectMeta g) = namespace \<and> Name (cfg_ObjectMeta g) = name)
                  (c_GatewayConfigurations c') of
             None \<Rightarrow> (Inl NotFound, c')
           | Some g \<Rightarrow> (Inr g, c')))"

definition StatusUpdateGateway :: "Gateway \<Rightarrow> cluster \<Rightarrow> error option \<times> cluster" where
  "StatusUpdateGateway gateway c =
     (case request c of
        (Some err, c') \<Rightarrow> (Some err, c')
      | (None, c') \<Rightarrow>
          if list_ex (\<lambda>g. sameKey (gw_ObjectMeta g) (gw_ObjectMeta gateway)) (c_Gateways c')
          then (None, c'\<lparr>c_Gateways :=
                  map (\<lambda>g. if sameKey (gw_ObjectMeta g) (gw_ObjectMeta gateway)
                            then g\<lparr>gw_Conditions := gw_Conditions gateway,
                                   gw_Addresses := gw_Addresses gateway\<rparr>
                            else g) (c_Gateways c')\<rparr>)
          else (Some NotFound, c'))"

definition ListDataPlanes ::
  "string \<Rightarrow> string \<Rightarrow> string \<Rightarrow> cluster \<Rightarrow> (error + DataPlane list) \<times> cluster" where
  "ListDataPlanes namespace requiredLabel requiredValue c =
     (case request c of
        (Some err, c') \<Rightarrow> (Inl err, c')
      | (None, c') \<Rightarrow>
          (Inr (filter (\<lambda>d. selected namespace requiredLabel requiredValue (dp_ObjectMeta d))
                  (c_DataPlanes c')), c'))"

definition DeleteAllOfDataPlanes ::
  "string \<Rightarrow> string \<Rightarrow> string \<Rightarrow> cluster \<Rightarrow> error option \<times> cluster" where
  "DeleteAllOfDataPlanes namespace requiredLabel requiredValue c =
     (case request c of
        (Some err, c') \<Rightarrow> (Some err, c')
      | (None, c') \<Rightarrow>
          (None, c'\<lparr>c_DataPlanes :=
             filter (\<lambda>d. \<not> selected namespace requiredLabel requiredValue (dp_ObjectMeta d))
               (c_DataPlanes c')\<rparr>))"

definition CreateDataPlane :: "DataPlane \<Rightarrow> cluster \<Rightarrow> error option \<times> cluster" where
  "CreateDataPlane dataplane c =
     (case request c of
        (Some err, c') \<Rightarrow> (Some err, c')
      | (None, c') \<Rightarrow> (None, c'\<lparr>c_DataPlanes := c_DataPlanes c' @ [dataplane]\<rparr>))"

definition UpdateDataPlane :: "DataPlane \<Rightarrow> cluster \<Rightarrow> error option \<times> cluster" where
  "UpdateDataPlane dataplane c =
     (case request c of
        (Some err, c') \<Rightarrow> (Some err, c')
      | (None, c') \<Rightarrow>
          if list_ex (\<lambda>d. sameKey (dp_ObjectMeta d) (dp_ObjectMeta dataplane)) (c_DataPlanes c')
          then (None, c'\<lparr>c_DataPlanes :=
                  map (\<lambda>d. if sameKey (dp_ObjectMeta d) (dp_ObjectMeta dataplane)
                            then dataplane\<lparr>dp_Conditions := dp_Conditions d\<rparr>
                            else d) (c_DataPlanes c')\<rparr>)
          else (Some NotFound, c'))"

definition ListControlPlanes ::
  "string \<Rightarrow> string \<Rightarrow> string \<Rightarrow> cluster \<Rightarrow> (error + ControlPlane list) \<times> cluster" where
  "ListControlPlanes namespace requiredLabel requiredValue c =
     (case request c of
        (Some err, c') \<Rightarrow> (Inl err, c')
      | (None, c') \<Rightarrow>
          (Inr (filter (\<lambda>d. selected namespace requiredLabel requiredValue (cp_ObjectMeta d))
                  (c_ControlPlanes c')), c'))"

definition CreateControlPlane :: "ControlPlane \<Rightarrow> cluster \<Rightarrow> error option \<times> cluster" where
  "CreateControlPlane controlplane c =
     (case request c of
        (Some err, c') \<Rightarrow> (Some err, c')
      | (None, c') \<Rightarrow> (None, c'\<lparr>c_ControlPlanes := c_ControlPlanes c' @ [controlplane]\<rparr>))"

definition UpdateControlPlane :: "ControlPlane \<Rightarrow> cluster \<Rightarrow> error option \<times> cluster" where
  "UpdateControlPlane controlplane c =
     (case request c of
        (Some err, c') \<Rightarrow> (Some err, c')
      | (None, c') \<Rightarrow>
          if list_ex (\<lambda>d. sameKey (cp_ObjectMeta d) (cp_ObjectMeta controlplane)) (c_ControlPlanes c')
          then (None, c'\<lparr>c_ControlPlanes :=
                  map (\<lambda>d. if sameKey (cp_ObjectMeta d) (cp_ObjectMeta controlplane)
                            then controlplane\<lparr>cp_Conditions := cp_Conditions d\<rparr>
                            else d) (c_ControlPlanes c')\<rparr>)
          else (Some NotFound, c'))"

definition ListServices ::
  "string \<Rightarrow> string \<Rightarrow> string \<Rightarrow> cluster \<Rightarrow> (error + Service list) \<times> cluster" where
  "ListServices namespace requiredLabel requiredValue c =
     (case request c of
        (Some err, c') \<Rightarrow> (Inl err, c')
      | (None, c') \<Rightarrow>
          (Inr (filter (\<lambda>d. selected namespace requiredLabel requiredValue (svc_ObjectMeta d))
                  (c_Services c')), c'))"

definition ListDeployments ::
  "string \<Rightarrow> string \<Rightarrow> string \<Rightarrow> cluster \<Rightarrow> (error + Deployment list) \<times> cluster" where
  "ListDeployments namespace requiredLabel requiredValue c =
     (case request c of
        (Some err, c') \<Rightarrow> (Inl err, c')
      | (None, c') \<Rightarrow>
          (Inr (filter (\<lambda>d. selected namespace requiredLabel requiredValue (dep_ObjectMeta d))
                  (c_Deployments c')), c'))"

definition DeleteAllOfDeployments ::
  "string \<Rightarrow> string \<Rightarrow> string \<Rightarrow> cluster \<Rightarrow> error option \<times> cluster" where
  "DeleteAllOfDeployments namespace requiredLabel requiredValue c =
     (case request c of
        (Some err, c') \<Rightarrow> (Some err, c')
      | (None, c') \<Rightarrow>
          (None, c'\<lparr>c_Deployments :=
             filter (\<lambda>d. \<not> selected namespace requiredLabel requiredValue (dep_ObjectMeta d))
               (c_Deployments c')\<rparr>))"

definition CreateDeployment :: "Deployment \<Rightarrow> cluster \<Rightarrow> error option \<times> cluster" where
  "CreateDeployment deployment c =
     (case request c of
        (Some err, c') \<Rightarrow> (Some err, c')
      | (None, c') \<Rightarrow> (None, c'\<lparr>c_Deployments := c_Deployments c' @ [deployment]\<rparr>))"

definition UpdateDeployment :: "Deployment \<Rightarrow> cluster \<Rightarrow> error option \<times> cluster" where
  "UpdateDeployment deployment c =
     (case request c of
        (Some err, c') \<Rightarrow> (Some err, c')
      | (None, c') \<Rightarrow>
          if list_ex (\<lambda>d. sameKey (dep_ObjectMeta d) (dep_ObjectMeta deployment)) (c_Deployments c')
          then (None, c'\<lparr>c_Deployments :=
                  map (\<lambda>d. if sameKey (dep_ObjectMeta d) (dep_ObjectMeta deployment)
                            then deployment\<lparr>dep_StatusReplicas := dep_StatusReplicas d,
                                   dep_AvailableReplicas := dep_AvailableReplicas d\<rparr>
                            else d) (c_Deployments c')\<rparr>)
          else (Some NotFound, c'))"

section \<open>Helpers of \<^verbatim>\<open>internal/utils/kubernetes\<close>\<close>

text \<open>
  Modelled from the spec: \<^verbatim>\<open>consts.GatewayOperatorControlledLabel\<close> and the three
  label values are declared outside the sources modelled here.  The labeling convention of the
  specification is a fixed key that marks an object as operator-controlled and a value
  that names the kind of parent managing it.
\<close>

definition GatewayOperatorControlledLabel :: string where
  "GatewayOperatorControlledLabel = ''operator-controlled''"

definition GatewayManagedLabelValue :: string where
  "GatewayManagedLabelValue = ''managed-by-gateway''"

definition DataPlaneManagedLabelValue :: string where
  "DataPlaneManagedLabelValue = ''managed-by-dataplane''"

definition ControlPlaneManagedLabelValue :: string where
  "ControlPlaneManagedLabelValue = ''managed-by-controlplane''"

text \<open>
  Modelled from the spec: \<^verbatim>\<open>k8sutils.IsOwnedByRefUID\<close> is defined outside the
  sources modelled here.  The specification has the list reduced "by exact ownerReference-UID match";
  the listers for ServiceAccounts and ClusterRoles in \<^verbatim>\<open>lists.go\<close> write the same
  test as a loop over the owner references.
\<close>

definition IsOwnedByRefUID :: "ObjectMeta \<Rightarrow> string \<Rightarrow> bool" where
  "IsOwnedByRefUID meta uid = list_ex (\<lambda>ownerRef. ref_UID ownerRef = uid) (OwnerReferences meta)"

text \<open>
  Modelled from the spec: \<^verbatim>\<open>k8sutils.SetOwnerForObject\<close> and the labelling helpers
  (\<^verbatim>\<open>LabelObjectAsGatewayManaged\<close>, \<^verbatim>\<open>labelObjForDataplane\<close>,
  \<^verbatim>\<open>labelObjForControlPlane\<close>) are defined outside the sources modelled here.  By the first
  invariant of the specification an owned child carries exactly one ownerReference,
  pointing at its parent's UID, and the provenance label.
\<close>

definition SetOwnerForObject :: "string \<Rightarrow> ObjectMeta \<Rightarrow> ObjectMeta \<Rightarrow> ObjectMeta" where
  "SetOwnerForObject ownerKind meta owner =
     meta\<lparr>OwnerReferences := [\<lparr>ref_Kind = ownerKind, ref_Name = Name owner, ref_UID = UID owner\<rparr>]\<rparr>"

definition labelObj :: "string \<Rightarrow> ObjectMeta \<Rightarrow> ObjectMeta" where
  "labelObj managedBy meta =
     meta\<lparr>Labels := Some (AList.update GatewayOperatorControlledLabel managedBy
                          (case Labels meta of None \<Rightarrow> [] | Some kvs \<Rightarrow> kvs))\<rparr>"

text \<open>\<^verbatim>\<open>lists.go\<close>: list by label and namespace, reduce by owner UID.\<close>

definition ListDeploymentsForOwner ::
  "string \<Rightarrow> string \<Rightarrow> string \<Rightarrow> string \<Rightarrow> cluster \<Rightarrow> (error + Deployment list) \<times> cluster" where
  "ListDeploymentsForOwner requiredLabel requiredValue namespace uid c =
     (case ListDeployments namespace requiredLabel requiredValue c of
        (Inl err, c') \<Rightarrow> (Inl err, c')
      | (Inr deploymentList, c') \<Rightarrow>
          (Inr (filter (\<lambda>deployment. IsOwnedByRefUID (dep_ObjectMeta deployment) uid)
                  deploymentList), c'))"

definition ListServicesForOwner ::
  "string \<Rightarrow> string \<Rightarrow> string \<Rightarrow> string \<Rightarrow> cluster \<Rightarrow> (error + Service list) \<times> cluster" where
  "ListServicesForOwner requiredLabel requiredValue namespace uid c =
     (case ListServices namespace requiredLabel requiredValue c of
        (Inl err, c') \<Rightarrow> (Inl err, c')
      | (Inr serviceList, c') \<Rightarrow>
          (Inr (filter (\<lambda>service. IsOwnedByRefUID (svc_ObjectMeta service) uid) serviceList), c'))"

text \<open>
  \<^verbatim>\<open>metadata.go\<close>.  The copy of the existing metadata gets the generated owner
  references and, key by key, the generated labels; assigning into the copy's label map
  panics when that map is nil and there is a generated label to assign.
  \<^verbatim>\<open>reflect.DeepEqual\<close> on the label maps compares them as maps.  On the owner
  references it compares the slices entry by entry; it also tells a nil slice from an
  empty one, which lists do not, and which no caller can observe: each passes an
  existing object that was listed by its owner's UID and a generated object whose owner
  was just set, so neither slice is empty.
\<close>

definition sameMap :: "(string \<times> string) list \<Rightarrow> (string \<times> string) list \<Rightarrow> bool" where
  "sameMap kvs kvs' =
     list_all (\<lambda>k. map_of kvs k = map_of kvs' k) (map fst kvs @ map fst kvs')"

definition sameLabels ::
  "(string \<times> string) list option \<Rightarrow> (string \<times> string) list option \<Rightarrow> bool" where
  "sameLabels labels labels' =
     (case (labels, labels') of
        (None, None) \<Rightarrow> True
      | (Some kvs, Some kvs') \<Rightarrow> sameMap kvs kvs'
      | _ \<Rightarrow> False)"

definition EnsureObjectMetaIsUpdated :: "ObjectMeta \<Rightarrow> ObjectMeta \<Rightarrow> error + (bool \<times> ObjectMeta)" where
  "EnsureObjectMetaIsUpdated existingObjMeta generatedObjMeta =
     (let generatedLabels = (case Labels generatedObjMeta of None \<Rightarrow> [] | Some kvs \<Rightarrow> kvs)
      in case Labels existingObjMeta of
           None \<Rightarrow>
             if generatedLabels \<noteq> [] then Inl NilMapAssignment
             else
               let newObjectMeta =
                     existingObjMeta\<lparr>OwnerReferences := OwnerReferences generatedObjMeta\<rparr>
               in Inr (OwnerReferences existingObjMeta \<noteq> OwnerReferences newObjectMeta,
                       newObjectMeta)
         | Some existingLabels \<Rightarrow>
             let newObjectMeta =
                   existingObjMeta\<lparr>OwnerReferences := OwnerReferences generatedObjMeta,
                     Labels := Some (foldr (\<lambda>(k, v) labels. AList.update k v labels)
                                       generatedLabels existingLabels)\<rparr>
             in Inr (OwnerReferences existingObjMeta \<noteq> OwnerReferences newObjectMeta \<or>
                     \<not> sameLabels (Labels existingObjMeta) (Labels newObjectMeta),
                     newObjectMeta))"

text \<open>\<^verbatim>\<open>resources\<close>: the generators of the Gateway's children.\<close>

definition GenerateNewDataPlaneForGateway :: "Gateway \<Rightarrow> GatewayConfiguration \<Rightarrow> DataPlane" where
  "GenerateNewDataPlaneForGateway gateway gatewayConfig =
     \<lparr>dp_ObjectMeta = emptyObjectMeta\<lparr>Namespace := Namespace (gw_ObjectMeta gateway),
                        GenerateName := Name (gw_ObjectMeta gateway) @ ''-''\<rparr>,
      dp_Spec = (case cfg_DataPlaneDeploymentOptions gatewayConfig of
                   Some opts \<Rightarrow> opts | None \<Rightarrow> emptyDeploymentOptions),
      dp_Conditions = []\<rparr>"

definition GenerateNewControlPlaneForGateway ::
  "GatewayClass \<Rightarrow> Gateway \<Rightarrow> GatewayConfiguration \<Rightarrow> string \<Rightarrow> ControlPlane" where
  "GenerateNewControlPlaneForGateway gatewayClass gateway gatewayConfig dataplaneName =
     (let controlplane =
            \<lparr>cp_ObjectMeta = emptyObjectMeta\<lparr>Namespace := Namespace (gw_ObjectMeta gateway),
                               GenerateName := Name (gw_ObjectMeta gateway) @ ''-''\<rparr>,
             cp_Spec = (case cfg_ControlPlaneDeploymentOptions gatewayConfig of
                          Some opts \<Rightarrow> opts
                        | None \<Rightarrow> \<lparr>cpo_DeploymentOptions = emptyDeploymentOptions,
                                   cpo_DataPlane = None\<rparr>),
             cp_GatewayClass = Some (Name (gwc_ObjectMeta gatewayClass)),
             cp_Conditions = []\<rparr>
      in if cpo_DataPlane (cp_Spec controlplane) = None
         then controlplane\<lparr>cp_Spec := (cp_Spec controlplane)\<lparr>cpo_DataPlane := Some dataplaneName\<rparr>\<rparr>
         else controlplane)"

section \<open>The Gateway reconciler\<close>

text \<open>
  Constants of the Gateway API package \<^verbatim>\<open>gatewayv1alpha2\<close>.
\<close>

definition GatewayConditionScheduled :: string where
  "GatewayConditionScheduled = ''Scheduled''"

definition GatewayConditionReady :: string where
  "GatewayConditionReady = ''Ready''"

definition GatewayReasonScheduled :: string where
  "GatewayReasonScheduled = ''Scheduled''"

definition GatewayReasonReady :: string where
  "GatewayReasonReady = ''Ready''"

definition IPAddressType :: string where
  "IPAddressType = ''IPAddress''"

text \<open>
  Modelled from the spec: \<^verbatim>\<open>ControlPlaneConditionTypeProvisioned\<close> is declared
  outside the sources modelled here; the condition vocabulary names the type \<open>Provisioned\<close>.
\<close>

definition ControlPlaneConditionTypeProvisioned :: string where
  "ControlPlaneConditionTypeProvisioned = ''Provisioned''"

text \<open>
  What the Gateway reconciler uses and the sources modelled here do not define is a field of
  \<open>GatewayReconciler\<close>, with the type of its call site: the variable
  \<^verbatim>\<open>vars.ControllerName\<close>, the group of \<^verbatim>\<open>operatorv1alpha1.SchemeGroupVersion\<close>,
  the predicates \<^verbatim>\<open>gatewayutils.IsGatewayScheduled\<close> and
  \<^verbatim>\<open>gatewayutils.IsGatewayReady\<close>, the two methods that put defaults into the
  GatewayConfiguration, the two comparisons of deployment options, and the constant
  \<^verbatim>\<open>requeueWithoutBackoff\<close>.  \<open>g_now\<close> is the clock.

  Modelled from the spec: \<^verbatim>\<open>gatewayutils.PruneGatewayStatusConds\<close> is defined
  outside the sources modelled here.  The specification has it "prune any stale/duplicate
  condition entries": it rewrites the condition list of the Gateway and nothing else.
  Which entries it drops is the field \<open>g_prune\<close>.
\<close>

record GatewayReconciler =
  g_ControllerName :: string
  g_SchemeGroup :: string
  g_IsGatewayScheduled :: "Gateway \<Rightarrow> bool"
  g_IsGatewayReady :: "Gateway \<Rightarrow> bool"
  g_prune :: "Condition list \<Rightarrow> Condition list"
  g_setDataplaneGatewayConfigDefaults :: "GatewayConfiguration \<Rightarrow> GatewayConfiguration"
  g_setControlplaneGatewayConfigDefaults ::
    "Gateway \<Rightarrow> GatewayConfiguration \<Rightarrow> string \<Rightarrow> string \<Rightarrow> GatewayConfiguration"
  g_dataplaneSpecDeepEqual :: "DeploymentOptions \<Rightarrow> DeploymentOptions \<Rightarrow> bool"
  g_controlplaneSpecDeepEqual ::
    "ControlPlaneDeploymentOptions \<Rightarrow> ControlPlaneDeploymentOptions \<Rightarrow> bool"
  g_requeueWithoutBackoff :: nat
  g_now :: nat

definition PruneGatewayStatusConds :: "GatewayReconciler \<Rightarrow> Gateway \<Rightarrow> Gateway" where
  "PruneGatewayStatusConds g gateway = gateway\<lparr>gw_Conditions := g_prune g (gw_Conditions gateway)\<rparr>"

text \<open>
  Modelled from the spec: \<^verbatim>\<open>gatewayutils.ListDataPlanesForGateway\<close> and
  \<^verbatim>\<open>gatewayutils.ListControlPlanesForGateway\<close> are defined outside the sources
  modelled here.  The specification's ensurer lists the children by the provenance label in the
  parent's namespace and reduces the list by exact ownerReference-UID match.
\<close>

definition ListDataPlanesForGateway :: "Gateway \<Rightarrow> cluster \<Rightarrow> (error + DataPlane list) \<times> cluster" where
  "ListDataPlanesForGateway gateway c =
     (case ListDataPlanes (Namespace (gw_ObjectMeta gateway))
             GatewayOperatorControlledLabel GatewayManagedLabelValue c of
        (Inl err, c') \<Rightarrow> (Inl err, c')
      | (Inr dataplaneList, c') \<Rightarrow>
          (Inr (filter (\<lambda>dataplane. IsOwnedByRefUID (dp_ObjectMeta dataplane)
                                      (UID (gw_ObjectMeta gateway))) dataplaneList), c'))"

definition ListControlPlanesForGateway ::
  "Gateway \<Rightarrow> cluster \<Rightarrow> (error + ControlPlane list) \<times> cluster" where
  "ListControlPlanesForGateway gateway c =
     (case ListControlPlanes (Namespace (gw_ObjectMeta gateway))
             GatewayOperatorControlledLabel GatewayManagedLabelValue c of
        (Inl err, c') \<Rightarrow> (Inl err, c')
      | (Inr controlplaneList, c') \<Rightarrow>
          (Inr (filter (\<lambda>controlplane. IsOwnedByRefUID (cp_ObjectMeta controlplane)
                                         (UID (gw_ObjectMeta gateway))) controlplaneList), c'))"

subsection \<open>Reconciler helpers\<close>

definition ensureDataPlaneForGateway ::
  "GatewayReconciler \<Rightarrow> Gateway \<Rightarrow> GatewayConfiguration \<Rightarrow> cluster \<Rightarrow> (error + DataPlane) \<times> cluster" where
  "ensureDataPlaneForGateway g gateway gatewayConfig c =
     (case ListDataPlanesForGateway gateway c of
        (Inl err, c1) \<Rightarrow> (Inl err, c1)
      | (Inr dataplanes, c1) \<Rightarrow>
          let count = length dataplanes
          in case (if count > 1
                   then DeleteAllOfDataPlanes (Namespace (gw_ObjectMeta gateway))
                          GatewayOperatorControlledLabel GatewayManagedLabelValue c1
                   else (None, c1)) of
               (Some err, c2) \<Rightarrow> (Inl err, c2)
             | (None, c2) \<Rightarrow>
                 let generated = GenerateNewDataPlaneForGateway gateway gatewayConfig;
                     generatedDataplane = generated\<lparr>dp_ObjectMeta :=
                       labelObj GatewayManagedLabelValue
                         (SetOwnerForObject ''Gateway'' (dp_ObjectMeta generated)
                            (gw_ObjectMeta gateway))\<rparr>
                 in if count = 1 then
                      (case EnsureObjectMetaIsUpdated (dp_ObjectMeta (hd dataplanes))
                              (dp_ObjectMeta generatedDataplane) of
                         Inl err \<Rightarrow> (Inl err, c2)
                       | Inr (updated, meta) \<Rightarrow>
                           let existingDataplane = (hd dataplanes)\<lparr>dp_ObjectMeta := meta\<rparr>;
                               outOfDate =
                                 (case cfg_DataPlaneDeploymentOptions gatewayConfig of
                                    None \<Rightarrow> False
                                  | Some opts \<Rightarrow>
                                      \<not> g_dataplaneSpecDeepEqual g (dp_Spec existingDataplane) opts);
                               existingDataplane' =
                                 (case cfg_DataPlaneDeploymentOptions gatewayConfig of
                                    None \<Rightarrow> existingDataplane
                                  | Some opts \<Rightarrow>
                                      if outOfDate then existingDataplane\<lparr>dp_Spec := opts\<rparr>
                                      else existingDataplane)
                           in if updated \<or> outOfDate then
                                (case UpdateDataPlane existingDataplane' c2 of
                                   (Some err, c3) \<Rightarrow> (Inl err, c3)
                                 | (None, c3) \<Rightarrow> (Inr existingDataplane', c3))
                              else (Inr existingDataplane', c2))
                    else
                      (case CreateDataPlane generatedDataplane c2 of
                         (Some err, c3) \<Rightarrow> (Inl err, c3)
                       | (None, c3) \<Rightarrow> (Inr generatedDataplane, c3)))"

text \<open>
  With more than one ControlPlane the source calls \<^verbatim>\<open>DeleteAllOf\<close> with
  \<^verbatim>\<open>&operatorv1alpha1.DataPlane{}\<close>: the objects deleted are DataPlanes.
\<close>

definition ensureControlPlaneForGateway ::
  "GatewayReconciler \<Rightarrow> GatewayClass \<Rightarrow> Gateway \<Rightarrow> GatewayConfiguration \<Rightarrow> string \<Rightarrow> cluster \<Rightarrow>
   (error + ControlPlane) \<times> cluster" where
  "ensureControlPlaneForGateway g gatewayClass gateway gatewayConfig dataplaneName c =
     (case ListControlPlanesForGateway gateway c of
        (Inl err, c1) \<Rightarrow> (Inl err, c1)
      | (Inr controlplanes, c1) \<Rightarrow>
          let count = length controlplanes
          in case (if count > 1
                   then DeleteAllOfDataPlanes (Namespace (gw_ObjectMeta gateway))
                          GatewayOperatorControlledLabel GatewayManagedLabelValue c1
                   else (None, c1)) of
               (Some err, c2) \<Rightarrow> (Inl err, c2)
             | (None, c2) \<Rightarrow>
                 let generated = GenerateNewControlPlaneForGateway gatewayClass gateway
                                   gatewayConfig dataplaneName;
                     generatedControlplane = generated\<lparr>cp_ObjectMeta :=
                       labelObj GatewayManagedLabelValue
                         (SetOwnerForObject ''Gateway'' (cp_ObjectMeta generated)
                            (gw_ObjectMeta gateway))\<rparr>
                 in if count = 1 then
                      (case EnsureObjectMetaIsUpdated (cp_ObjectMeta (hd controlplanes))
                              (cp_ObjectMeta generatedControlplane) of
                         Inl err \<Rightarrow> (Inl err, c2)
                       | Inr (updated, meta) \<Rightarrow>
                           let existingControlplane = (hd controlplanes)\<lparr>cp_ObjectMeta := meta\<rparr>;
                               outOfDate =
                                 (case cfg_ControlPlaneDeploymentOptions gatewayConfig of
                                    None \<Rightarrow> False
                                  | Some opts \<Rightarrow>
                                      \<not> g_controlplaneSpecDeepEqual g
                                          (cp_Spec existingControlplane) opts);
                               existingControlplane' =
                                 (case cfg_ControlPlaneDeploymentOptions gatewayConfig of
                                    None \<Rightarrow> existingControlplane
                                  | Some opts \<Rightarrow>
                                      if outOfDate then existingControlplane\<lparr>cp_Spec := opts\<rparr>
                                      else existingControlplane)
                           in if updated \<or> outOfDate then
                                (case UpdateControlPlane existingControlplane' c2 of
                                   (Some err, c3) \<Rightarrow> (Inl err, c3)
                                 | (None, c3) \<Rightarrow> (Inr existingControlplane', c3))
                              else (Inr existingControlplane', c2))
                    else
                      (case CreateControlPlane generatedControlplane c2 of
                         (Some err, c3) \<Rightarrow> (Inl err, c3)
                       | (None, c3) \<Rightarrow> (Inr generatedControlplane, c3)))"

text \<open>
  \<^verbatim>\<open>ensureGatewayMarkedReady\<close> returns its error together with the Gateway as the
  function leaves it; when it reaches \<^verbatim>\<open>Status().Update\<close> that is the object
  submitted.
\<close>

definition gatewayAddresses :: "Service \<Rightarrow> GatewayAddress list" where
  "gatewayAddresses svc =
     (let gatewayIPs = (if length (svc_Ingress svc) > 0 then [ing_IP (hd (svc_Ingress svc))]
                        else [])
      in map (\<lambda>ip. \<lparr>addr_Type = Some IPAddressType, addr_Value = ip\<rparr>)
           (gatewayIPs @ [svc_ClusterIP svc]))"

definition readyCondition :: "GatewayReconciler \<Rightarrow> Gateway \<Rightarrow> Condition" where
  "readyCondition g gateway =
     \<lparr>cond_Type = GatewayConditionReady,
      cond_Status = ConditionTrue,
      cond_ObservedGeneration = Generation (gw_ObjectMeta gateway),
      cond_LastTransitionTime = g_now g,
      cond_Reason = GatewayReasonReady,
      cond_Message = []\<rparr>"

definition ensureGatewayMarkedReady ::
  "GatewayReconciler \<Rightarrow> Gateway \<Rightarrow> DataPlane \<Rightarrow> cluster \<Rightarrow> (error option \<times> Gateway) \<times> cluster" where
  "ensureGatewayMarkedReady g gateway dataplane c =
     (if \<not> g_IsGatewayReady g gateway then
        (case ListServicesForOwner GatewayOperatorControlledLabel DataPlaneManagedLabelValue
                (Namespace (dp_ObjectMeta dataplane)) (UID (dp_ObjectMeta dataplane)) c of
           (Inl err, c1) \<Rightarrow> ((Some err, gateway), c1)
         | (Inr services, c1) \<Rightarrow>
             let count = length services
             in if count > 1 then ((Some (TooManyServices count), gateway), c1)
                else if count = 0
                then ((Some (NoServicesFound (Namespace (dp_ObjectMeta dataplane))
                               (Name (dp_ObjectMeta dataplane))), gateway), c1)
                else
                  let svc = hd services
                  in if svc_ClusterIP svc = []
                     then ((Some (NoClusterIP (Name (svc_ObjectMeta svc))), gateway), c1)
                     else
                       let gateway1 = PruneGatewayStatusConds g
                                        (gateway\<lparr>gw_Addresses := gatewayAddresses svc\<rparr>);
                           gateway2 = gateway1\<lparr>gw_Conditions := [readyCondition g gateway1]\<rparr>
                       in case StatusUpdateGateway gateway2 c1 of
                            (err, c2) \<Rightarrow> ((err, gateway2), c2))
      else ((None, gateway), c))"

definition verifyGatewayClassSupport ::
  "GatewayReconciler \<Rightarrow> Gateway \<Rightarrow> cluster \<Rightarrow> (error + GatewayClass) \<times> cluster" where
  "verifyGatewayClassSupport g gateway c =
     (if gw_GatewayClassName gateway = [] then (Inl ErrUnsupportedGateway, c)
      else case GetGatewayClass (gw_GatewayClassName gateway) c of
             (Inl err, c') \<Rightarrow> (Inl err, c')
           | (Inr gwc, c') \<Rightarrow>
               if gwc_ControllerName gwc \<noteq> g_ControllerName g
               then (Inl ErrUnsupportedGateway, c')
               else (Inr gwc, c'))"

definition emptyGatewayConfiguration :: GatewayConfiguration where
  "emptyGatewayConfiguration =
     \<lparr>cfg_ObjectMeta = emptyObjectMeta, cfg_DataPlaneDeploymentOptions = None,
      cfg_ControlPlaneDeploymentOptions = None\<rparr>"

definition getGatewayConfigForGatewayClass ::
  "GatewayReconciler \<Rightarrow> GatewayClass \<Rightarrow> cluster \<Rightarrow> (error + GatewayConfiguration) \<times> cluster" where
  "getGatewayConfigForGatewayClass g gatewayClass c =
     (case gwc_ParametersRef gatewayClass of
        None \<Rightarrow> (Inl (ErrObjectMissingParametersRef (Name (gwc_ObjectMeta gatewayClass))), c)
      | Some parametersRef \<Rightarrow>
          if pr_Group parametersRef \<noteq> g_SchemeGroup g \<or>
             pr_Kind parametersRef \<noteq> ''GatewayConfiguration''
          then (Inl (UnsupportedParametersRef (pr_Kind parametersRef)), c)
          else
            (case pr_Namespace parametersRef of
               None \<Rightarrow> (Inl (InvalidParametersRef (Name (gwc_ObjectMeta gatewayClass))), c)
             | Some namespace \<Rightarrow>
                 if namespace = [] \<or> pr_Name parametersRef = []
                 then (Inl (InvalidParametersRef (Name (gwc_ObjectMeta gatewayClass))), c)
                 else GetGatewayConfiguration namespace (pr_Name parametersRef) c))"

definition getOrCreateGatewayConfiguration ::
  "GatewayReconciler \<Rightarrow> GatewayClass \<Rightarrow> cluster \<Rightarrow> (error + GatewayConfiguration) \<times> cluster" where
  "getOrCreateGatewayConfiguration g gatewayClass c =
     (case getGatewayConfigForGatewayClass g gatewayClass c of
        (Inl err, c') \<Rightarrow>
          (case err of
             ErrObjectMissingParametersRef _ \<Rightarrow> (Inr emptyGatewayConfiguration, c')
           | _ \<Rightarrow> (Inl err, c'))
      | (Inr gatewayConfig, c') \<Rightarrow> (Inr gatewayConfig, c'))"

subsection \<open>Reconciliation\<close>

text \<open>
  \<^verbatim>\<open>Reconcile\<close> of the Gateway reconciler, cut into three parts at the two waits: up
  to the scheduling of the Gateway, from the configuration to the readiness of the
  DataPlane, and from the DataPlane's Service to the marking of the Gateway.
\<close>

definition isProvisioned :: "string \<Rightarrow> Condition list \<Rightarrow> bool" where
  "isProvisioned conditionType conditions =
     list_ex (\<lambda>condition. cond_Type condition = conditionType \<and>
                           cond_Status condition = ConditionTrue) conditions"

definition requeueNow :: "GatewayReconciler \<Rightarrow> Result" where
  "requeueNow g = \<lparr>Requeue = True, RequeueAfter = g_requeueWithoutBackoff g\<rparr>"

definition reconcileControlPlane ::
  "GatewayReconciler \<Rightarrow> GatewayClass \<Rightarrow> Gateway \<Rightarrow> GatewayConfiguration \<Rightarrow> DataPlane \<Rightarrow> cluster \<Rightarrow>
   (Result \<times> error option) \<times> cluster" where
  "reconcileControlPlane g gatewayClass gateway gatewayConfig dataplane c =
     (case ListServicesForOwner GatewayOperatorControlledLabel DataPlaneManagedLabelValue
             (Namespace (dp_ObjectMeta dataplane)) (UID (dp_ObjectMeta dataplane)) c of
        (Inl err, c1) \<Rightarrow> ((Result0, Some err), c1)
      | (Inr services, c1) \<Rightarrow>
          let count = length services
          in if count > 1 then ((Result0, Some (TooManyServices count)), c1)
             else if count = 0
             then ((Result0, Some (NoServicesFound (Namespace (dp_ObjectMeta dataplane))
                                     (Name (dp_ObjectMeta dataplane)))), c1)
             else
               let gatewayConfig' = g_setControlplaneGatewayConfigDefaults g gateway gatewayConfig
                                      (Name (dp_ObjectMeta dataplane))
                                      (Name (svc_ObjectMeta (hd services)))
               in case ensureControlPlaneForGateway g gatewayClass gateway gatewayConfig'
                         (Name (dp_ObjectMeta dataplane)) c1 of
                    (Inl err, c2) \<Rightarrow> ((Result0, Some err), c2)
                  | (Inr controlplane, c2) \<Rightarrow>
                      if \<not> isProvisioned ControlPlaneConditionTypeProvisioned
                             (cp_Conditions controlplane)
                      then ((requeueNow g, None), c2)
                      else
                        (case ensureGatewayMarkedReady g gateway dataplane c2 of
                           ((Some err, _), c3) \<Rightarrow> ((Result0, Some err), c3)
                         | ((None, _), c3) \<Rightarrow> ((Result0, None), c3)))"

definition reconcileDataPlane ::
  "GatewayReconciler \<Rightarrow> GatewayClass \<Rightarrow> Gateway \<Rightarrow> cluster \<Rightarrow> (Result \<times> error option) \<times> cluster" where
  "reconcileDataPlane g gatewayClass gateway c =
     (case getOrCreateGatewayConfiguration g gatewayClass c of
        (Inl err, c1) \<Rightarrow> ((Result0, Some err), c1)
      | (Inr fetchedConfig, c1) \<Rightarrow>
          let gatewayConfig = g_setDataplaneGatewayConfigDefaults g fetchedConfig
          in case ensureDataPlaneForGateway g gateway gatewayConfig c1 of
               (Inl err, c2) \<Rightarrow> ((Result0, Some err), c2)
             | (Inr dataplane, c2) \<Rightarrow>
                 if \<not> isProvisioned DataPlaneConditionTypeProvisioned (dp_Conditions dataplane)
                 then ((requeueNow g, None), c2)
                 else reconcileControlPlane g gatewayClass gateway gatewayConfig dataplane c2)"

definition scheduledCondition :: "GatewayReconciler \<Rightarrow> Gateway \<Rightarrow> Condition" where
  "scheduledCondition g gateway =
     \<lparr>cond_Type = GatewayConditionScheduled,
      cond_Status = ConditionTrue,
      cond_ObservedGeneration = Generation (gw_ObjectMeta gateway),
      cond_LastTransitionTime = g_now g,
      cond_Reason = GatewayReasonScheduled,
      cond_Message = ''this gateway has been picked up by the '' @ g_ControllerName g @
                     '' and will be processed''\<rparr>"

definition GatewayReconcile ::
  "GatewayReconciler \<Rightarrow> string \<Rightarrow> string \<Rightarrow> cluster \<Rightarrow> (Result \<times> error option) \<times> cluster" where
  "GatewayReconcile g namespace name c =
     (case GetGateway namespace name c of
        (Inl err, c1) \<Rightarrow>
          if IsNotFound err then ((Result0, None), c1) else ((Result0, Some err), c1)
      | (Inr gateway, c1) \<Rightarrow>
          (case verifyGatewayClassSupport g gateway c1 of
             (Inl err, c2) \<Rightarrow>
               if err = ErrUnsupportedGateway then ((Result0, None), c2)
               else ((Result0, Some err), c2)
           | (Inr gatewayClass, c2) \<Rightarrow>
               if \<not> g_IsGatewayScheduled g gateway then
                 (case StatusUpdateGateway
                         (PruneGatewayStatusConds g
                            (gateway\<lparr>gw_Conditions := gw_Conditions gateway @
                                       [scheduledCondition g gateway]\<rparr>)) c2 of
                    (err, c3) \<Rightarrow> ((Result0, err), c3))
               else reconcileDataPlane g gatewayClass gateway c2))"



section \<open>The ControlPlane reconciler: the owned Deployment\<close>

text \<open>
  \<^verbatim>\<open>generateNewDeploymentForControlPlane\<close> is defined outside the sources modelled here and
  is the first argument.  \<^verbatim>\<open>Containers[0]\<close> panics on a Deployment without
  containers.
\<close>

definition numReplicasWhenNoDataplane :: int where
  "numReplicasWhenNoDataplane = 0"

definition updateIfChanged ::
  "bool \<Rightarrow> Deployment \<Rightarrow> cluster \<Rightarrow> (error + bool \<times> Deployment) \<times> cluster" where
  "updateIfChanged updated existingDeployment c =
     (if updated then
        (case UpdateDeployment existingDeployment c of
           (Some err, c') \<Rightarrow> (Inl err, c')
         | (None, c') \<Rightarrow> (Inr (True, existingDeployment), c'))
      else (Inr (False, existingDeployment), c))"

definition ensureDeploymentForControlPlane ::
  "(ControlPlane \<Rightarrow> string \<Rightarrow> Deployment) \<Rightarrow> ControlPlane \<Rightarrow> string \<Rightarrow> cluster \<Rightarrow>
   (error + bool \<times> Deployment) \<times> cluster" where
  "ensureDeploymentForControlPlane generateNewDeploymentForControlPlane controlplane
     serviceAccountName c =
     (let dataplaneIsSet = (case cpo_DataPlane (cp_Spec controlplane) of
                              None \<Rightarrow> False | Some dataplaneName \<Rightarrow> dataplaneName \<noteq> [])
      in case ListDeploymentsForOwner GatewayOperatorControlledLabel ControlPlaneManagedLabelValue
                (Namespace (cp_ObjectMeta controlplane)) (UID (cp_ObjectMeta controlplane)) c of
           (Inl err, c1) \<Rightarrow> (Inl err, c1)
         | (Inr deployments, c1) \<Rightarrow>
             let count = length deployments
             in case (if count > 1
                      then DeleteAllOfDeployments (Namespace (cp_ObjectMeta controlplane))
                             GatewayOperatorControlledLabel ControlPlaneManagedLabelValue c1
                      else (None, c1)) of
                  (Some err, c2) \<Rightarrow> (Inl err, c2)
                | (None, c2) \<Rightarrow>
                    let generated = generateNewDeploymentForControlPlane controlplane
                                      serviceAccountName;
                        generatedDeployment = generated\<lparr>dep_ObjectMeta :=
                          labelObj ControlPlaneManagedLabelValue
                            (SetOwnerForObject ''ControlPlane'' (dep_ObjectMeta generated)
                               (cp_ObjectMeta controlplane))\<rparr>
                    in if count = 1 then
                         (case EnsureObjectMetaIsUpdated (dep_ObjectMeta (hd deployments))
                                 (dep_ObjectMeta generatedDeployment) of
                            Inl err \<Rightarrow> (Inl err, c2)
                          | Inr (updated, meta) \<Rightarrow>
                              let existingDeployment = (hd deployments)\<lparr>dep_ObjectMeta := meta\<rparr>;
                                  replicas = dep_Replicas existingDeployment
                              in if \<not> dataplaneIsSet \<and>
                                    (replicas = None \<or>
                                     replicas \<noteq> Some numReplicasWhenNoDataplane)
                                 then updateIfChanged True
                                        (existingDeployment\<lparr>dep_Replicas :=
                                           Some numReplicasWhenNoDataplane\<rparr>) c2
                                 else if dataplaneIsSet \<and>
                                         (replicas \<noteq> None \<and>
                                          replicas = Some numReplicasWhenNoDataplane)
                                 then
                                   (case dep_Containers existingDeployment of
                                      [] \<Rightarrow> (Inl IndexOutOfRange, c2)
                                    | container # others \<Rightarrow>
                                        updateIfChanged True
                                          (existingDeployment\<lparr>dep_Replicas := None,
                                             dep_Containers :=
                                               (if length (ctr_Env container) > 0
                                                then container\<lparr>ctr_Env := opt_Env
                                                       (cpo_DeploymentOptions (cp_Spec controlplane))\<rparr>
                                                else container) # others\<rparr>) c2)
                                 else updateIfChanged updated existingDeployment c2)
                       else
                         let generatedDeployment' =
                               (if \<not> dataplaneIsSet
                                then generatedDeployment\<lparr>dep_Replicas :=
                                       Some numReplicasWhenNoDataplane\<rparr>
                                else generatedDeployment)
                         in case CreateDeployment generatedDeployment' c2 of
                              (Some err, c3) \<Rightarrow> (Inl err, c3)
                            | (None, c3) \<Rightarrow> (Inr (True, generatedDeployment'), c3))"

text \<open>The Deployments of a ControlPlane as \<^verbatim>\<open>ListDeploymentsForOwner\<close> sees them.\<close>

definition ownedDeployments :: "ControlPlane \<Rightarrow> cluster \<Rightarrow> Deployment list" where
  "ownedDeployments controlplane c =
     filter (\<lambda>deployment. IsOwnedByRefUID (dep_ObjectMeta deployment)
                             (UID (cp_ObjectMeta controlplane)))
       (filter (\<lambda>deployment. selected (Namespace (cp_ObjectMeta controlplane))
                  GatewayOperatorControlledLabel ControlPlaneManagedLabelValue
                  (dep_ObjectMeta deployment))
          (c_Deployments c))"

section \<open>The DataPlane reconciler: the owned Deployment\<close>

text \<open>
  The two-result \<^verbatim>\<open>ensureDeploymentForDataPlane\<close> of the reconciler utilities.
  \<^verbatim>\<open>generateNewDeploymentForDataPlane\<close> is defined outside the sources modelled here and is
  the first argument.
\<close>

definition ensureDeploymentForDataPlane ::
  "(DataPlane \<Rightarrow> Deployment) \<Rightarrow> DataPlane \<Rightarrow> cluster \<Rightarrow> (error + Deployment) \<times> cluster" where
  "ensureDeploymentForDataPlane generateNewDeploymentForDataPlane dataplane c =
     (case ListDeploymentsForOwner GatewayOperatorControlledLabel DataPlaneManagedLabelValue
             (Namespace (dp_ObjectMeta dataplane)) (UID (dp_ObjectMeta dataplane)) c of
        (Inl err, c1) \<Rightarrow> (Inl err, c1)
      | (Inr deployments, c1) \<Rightarrow>
          let count = length deployments
          in case (if count > 1
                   then DeleteAllOfDeployments (Namespace (dp_ObjectMeta dataplane))
                          GatewayOperatorControlledLabel DataPlaneManagedLabelValue c1
                   else (None, c1)) of
               (Some err, c2) \<Rightarrow> (Inl err, c2)
             | (None, c2) \<Rightarrow>
                 let generated = generateNewDeploymentForDataPlane dataplane;
                     generatedDeployment = generated\<lparr>dep_ObjectMeta :=
                       labelObj DataPlaneManagedLabelValue
                         (SetOwnerForObject ''DataPlane'' (dep_ObjectMeta generated)
                            (dp_ObjectMeta dataplane))\<rparr>
                 in if count = 1 then
                      (case EnsureObjectMetaIsUpdated (dep_ObjectMeta (hd deployments))
                              (dep_ObjectMeta generatedDeployment) of
                         Inl err \<Rightarrow> (Inl err, c2)
                       | Inr (updated, meta) \<Rightarrow>
                           let existingDeployment = (hd deployments)\<lparr>dep_ObjectMeta := meta\<rparr>
                           in if updated then
                                (case UpdateDeployment existingDeployment c2 of
                                   (Some err, c3) \<Rightarrow> (Inl err, c3)
                                 | (None, c3) \<Rightarrow> (Inr existingDeployment, c3))
                              else (Inr existingDeployment, c2))
                    else
                      (case CreateDeployment generatedDeployment c2 of
                         (Some err, c3) \<Rightarrow> (Inl err, c3)
                       | (None, c3) \<Rightarrow> (Inr generatedDeployment, c3)))"

text \<open>The Deployments of a DataPlane as \<^verbatim>\<open>ListDeploymentsForOwner\<close> sees them.\<close>

definition ownedDataPlaneDeployments :: "DataPlane \<Rightarrow> cluster \<Rightarrow> Deployment list" where
  "ownedDataPlaneDeployments dataplane c =
     filter (\<lambda>deployment. IsOwnedByRefUID (dep_ObjectMeta deployment)
                             (UID (dp_ObjectMeta dataplane)))
       (filter (\<lambda>deployment. selected (Namespace (dp_ObjectMeta dataplane))
                  GatewayOperatorControlledLabel DataPlaneManagedLabelValue
                  (dep_ObjectMeta deployment))
          (c_Deployments c))"

text \<open>
  What "the Provisioned condition is \<open>status\<close> with \<open>reason\<close> and \<open>message\<close>" means
  for a condition list: there is an entry of type Provisioned, and every such entry
  carries the three values.
\<close>

definition provisionedIs :: "ConditionStatus \<Rightarrow> string \<Rightarrow> string \<Rightarrow> Condition list \<Rightarrow> bool" where
  "provisionedIs status reason message conditions =
     (let provisioned =
            filter (\<lambda>c. cond_Type c = DataPlaneConditionTypeProvisioned) conditions
      in provisioned \<noteq> [] \<and>
         list_all (\<lambda>c. cond_Status c = status \<and> cond_Reason c = reason \<and>
                        cond_Message c = message) provisioned)"

text \<open>Objects for the concrete evaluations further down.\<close>

definition exampleMeta :: "string \<Rightarrow> string \<Rightarrow> ObjectMeta" where
  "exampleMeta name uid =
     \<lparr>Name = name, GenerateName = [], Namespace = ''default'', UID = uid, Generation = 1,
      Labels = None, OwnerReferences = []\<rparr>"

definition exampleCondition :: "string \<Rightarrow> ConditionStatus \<Rightarrow> string \<Rightarrow> Condition" where
  "exampleCondition t st r =
     \<lparr>cond_Type = t, cond_Status = st, cond_ObservedGeneration = 1,
      cond_LastTransitionTime = 0, cond_Reason = r, cond_Message = []\<rparr>"

definition exampleDataPlane :: "Condition list \<Rightarrow> DataPlane" where
  "exampleDataPlane conditions =
     \<lparr>dp_ObjectMeta = exampleMeta ''dataplane-1'' ''uid-dp-1'',
      dp_Spec = \<lparr>opt_Replicas = None, opt_ContainerImage = None,
                 opt_Env = [(''KONG_DATABASE'', ''off'')], opt_EnvFrom = []\<rparr>,
      dp_Conditions = conditions\<rparr>"

definition exampleService :: "string \<Rightarrow> LoadBalancerIngress list \<Rightarrow> Service" where
  "exampleService clusterIP ingress =
     \<lparr>svc_ObjectMeta = exampleMeta ''service-1'' ''uid-svc-1'', svc_ClusterIP = clusterIP,
      svc_Ingress = ingress\<rparr>"

definition exampleSecret :: Secret where
  "exampleSecret = \<lparr>secret_ObjectMeta = exampleMeta ''secret-1'' ''uid-secret-1''\<rparr>"

definition exampleDeployment :: "int option \<Rightarrow> int \<Rightarrow> Deployment" where
  "exampleDeployment replicas available =
     \<lparr>dep_ObjectMeta = exampleMeta ''deployment-1'' ''uid-dep-1'', dep_Replicas = replicas,
      dep_Containers = [\<lparr>ctr_Image = ''kong'', ctr_Env = []\<rparr>],
      dep_StatusReplicas = 1, dep_AvailableReplicas = available\<rparr>"

text \<open>
  A reconciler whose API server stores \<open>dataplane\<close> and accepts every write, whose
  helpers leave the object as it is and report nothing to do, and whose validator
  accepts.
\<close>

definition exampleReconciler :: "DataPlane \<Rightarrow> DataPlaneReconciler" where
  "exampleReconciler dataplane =
     \<lparr>r_Get = Inr dataplane, r_GetCurrent = Inr dataplane,
      r_StatusUpdate = (\<lambda>_. None), r_Update = (\<lambda>_. None), r_now = 5,
      r_InitReady = (\<lambda>d. d),
      r_ensureIsMarkedScheduled = (\<lambda>d. (False, d)),
      r_ensureIsMarkedProvisioned = (\<lambda>d. d),
      r_NeedsUpdate = (\<lambda>current updated. dp_Conditions current \<noteq> dp_Conditions updated),
      r_SetDataPlaneDefaults = (\<lambda>opts. opts),
      r_Validate = (\<lambda>_. None),
      r_ensureServiceForDataPlane = (\<lambda>_. Inr (False, exampleService ''10.0.0.7'' [])),
      r_ensureDataPlaneServiceStatus = (\<lambda>_ _. None),
      r_ensureCertificate = (\<lambda>_ _. Inr (False, exampleSecret)),
      r_ensureDeploymentForDataPlane = (\<lambda>_ _. Inr (False, exampleDeployment None 1)),
      requeueWithoutBackoff = 200,
      actions = []\<rparr>"

text \<open>
  Three variations: a validator that rejects the spec, a Service that has no ClusterIP
  yet, and an API server that answers every status update with a conflict while the
  DataPlane has just been marked scheduled in memory.
\<close>

definition scheduledDataPlane :: DataPlane where
  "scheduledDataPlane =
     exampleDataPlane [exampleCondition ''Provisioned'' ConditionFalse ''PodsNotReady'']"

definition rejectingReconciler :: DataPlaneReconciler where
  "rejectingReconciler =
     (exampleReconciler scheduledDataPlane)\<lparr>r_Validate := (\<lambda>_. Some ''bad image'')\<rparr>"

definition pendingServiceReconciler :: DataPlaneReconciler where
  "pendingServiceReconciler =
     (exampleReconciler scheduledDataPlane)
       \<lparr>r_ensureServiceForDataPlane := (\<lambda>_. Inr (False, exampleService [] []))\<rparr>"

definition conflictOnScheduling :: DataPlaneReconciler where
  "conflictOnScheduling =
     (exampleReconciler (exampleDataPlane []))
       \<lparr>r_ensureIsMarkedScheduled := (\<lambda>d. (True, scheduledDataPlane)),
        r_StatusUpdate := (\<lambda>_. Some Conflict)\<rparr>"

definition conflictOnValidationFailure :: DataPlaneReconciler where
  "conflictOnValidationFailure = rejectingReconciler\<lparr>r_StatusUpdate := (\<lambda>_. Some Conflict)\<rparr>"

text \<open>
  Modelled from the spec: \<^verbatim>\<open>gatewayutils.IsGatewayScheduled\<close> and
  \<^verbatim>\<open>gatewayutils.IsGatewayReady\<close> are defined outside the sources modelled here.  In the
  condition vocabulary of the specification a Gateway is scheduled, or ready, when it
  carries the condition of that type with status True.  The general statements below
  hold for any two predicates in their place; the concrete evaluations use these.
\<close>

definition IsGatewayScheduled :: "Gateway \<Rightarrow> bool" where
  "IsGatewayScheduled gateway =
     list_ex (\<lambda>cond. cond_Type cond = GatewayConditionScheduled \<and>
                      cond_Status cond = ConditionTrue) (gw_Conditions gateway)"

definition IsGatewayReady :: "Gateway \<Rightarrow> bool" where
  "IsGatewayReady gateway =
     list_ex (\<lambda>cond. cond_Type cond = GatewayConditionReady \<and>
                      cond_Status cond = ConditionTrue) (gw_Conditions gateway)"

definition exampleGatewayReconciler :: GatewayReconciler where
  "exampleGatewayReconciler =
     \<lparr>g_ControllerName = ''konghq.com/gateway-operator'',
      g_SchemeGroup = ''gateway-operator.konghq.com'',
      g_IsGatewayScheduled = IsGatewayScheduled,
      g_IsGatewayReady = IsGatewayReady,
      g_prune = (\<lambda>conditions. conditions),
      g_setDataplaneGatewayConfigDefaults = (\<lambda>gatewayConfig. gatewayConfig),
      g_setControlplaneGatewayConfigDefaults = (\<lambda>gateway gatewayConfig _ _. gatewayConfig),
      g_dataplaneSpecDeepEqual = (\<lambda>opts opts'. opts = opts'),
      g_controlplaneSpecDeepEqual = (\<lambda>opts opts'. opts = opts'),
      g_requeueWithoutBackoff = 200,
      g_now = 9\<rparr>"

definition ownedMeta :: "string \<Rightarrow> string \<Rightarrow> string \<Rightarrow> string \<Rightarrow> ObjectMeta" where
  "ownedMeta name uid managedBy ownerUID =
     \<lparr>Name = name, GenerateName = [], Namespace = ''default'', UID = uid, Generation = 1,
      Labels = Some [(GatewayOperatorControlledLabel, managedBy)],
      OwnerReferences = [\<lparr>ref_Kind = ''Owner'', ref_Name = ''owner'', ref_UID = ownerUID\<rparr>]\<rparr>"

definition exampleGateway :: "Condition list \<Rightarrow> Gateway" where
  "exampleGateway conditions =
     \<lparr>gw_ObjectMeta = exampleMeta ''gw'' ''uid-gw'', gw_GatewayClassName = ''kong'',
      gw_Conditions = conditions, gw_Addresses = []\<rparr>"

definition exampleGatewayClass :: "string \<Rightarrow> GatewayClass" where
  "exampleGatewayClass controllerName =
     \<lparr>gwc_ObjectMeta = exampleMeta ''kong'' ''uid-gwc'', gwc_ControllerName = controllerName,
      gwc_ParametersRef = None\<rparr>"

definition ownedDataPlane :: "ConditionStatus \<Rightarrow> DataPlane" where
  "ownedDataPlane status =
     \<lparr>dp_ObjectMeta = ownedMeta ''gw-dataplane'' ''uid-dp'' GatewayManagedLabelValue ''uid-gw'',
      dp_Spec = emptyDeploymentOptions,
      dp_Conditions = [exampleCondition ''Provisioned'' status ''PodsReady'']\<rparr>"

definition ownedService :: "LoadBalancerIngress list \<Rightarrow> Service" where
  "ownedService ingress =
     \<lparr>svc_ObjectMeta = ownedMeta ''gw-dataplane-svc'' ''uid-svc'' DataPlaneManagedLabelValue ''uid-dp'',
      svc_ClusterIP = ''10.0.0.7'', svc_Ingress = ingress\<rparr>"

definition ownedControlPlane :: "string \<Rightarrow> ConditionStatus \<Rightarrow> ControlPlane" where
  "ownedControlPlane name status =
     \<lparr>cp_ObjectMeta = ownedMeta name (''uid-'' @ name) GatewayManagedLabelValue ''uid-gw'',
      cp_Spec = \<lparr>cpo_DeploymentOptions = emptyDeploymentOptions,
                 cpo_DataPlane = Some ''gw-dataplane''\<rparr>,
      cp_GatewayClass = Some ''kong'',
      cp_Conditions = [exampleCondition ''Provisioned'' status ''PodsReady'']\<rparr>"

definition exampleCluster ::
  "GatewayClass list \<Rightarrow> Gateway list \<Rightarrow> DataPlane list \<Rightarrow> ControlPlane list \<Rightarrow> Service list \<Rightarrow> cluster" where
  "exampleCluster gatewayClasses gateways dataplanes controlplanes services =
     \<lparr>c_GatewayClasses = gatewayClasses, c_GatewayConfigurations = [],
      c_Gateways = gateways, c_DataPlanes = dataplanes, c_ControlPlanes = controlplanes,
      c_Services = services, c_Deployments = [],
      c_faults = (\<lambda>_. None), c_requests = 0\<rparr>"

text \<open>
  The clusters of the concrete evaluations.  \<open>duplicatedControlPlanes\<close>: a scheduled
  Gateway with a provisioned DataPlane, its Service, and two ControlPlanes that carry the
  Gateway's provenance label and owner reference.  \<open>staleReady\<close>: a Gateway that an
  earlier pass marked Ready and scheduled again, whose DataPlane is no longer
  provisioned.  \<open>missingClass\<close>: a Gateway whose GatewayClass is not in the cluster.
  \<open>readyToMark\<close>: a scheduled Gateway with provisioned children and a Service that has
  a load-balancer address.
\<close>

definition scheduledGateway :: Gateway where
  "scheduledGateway = exampleGateway [exampleCondition ''Scheduled'' ConditionTrue ''Scheduled'']"

definition duplicatedControlPlanes :: cluster where
  "duplicatedControlPlanes =
     exampleCluster [exampleGatewayClass ''konghq.com/gateway-operator''] [scheduledGateway]
       [ownedDataPlane ConditionTrue]
       [ownedControlPlane ''gw-controlplane-a'' ConditionTrue,
        ownedControlPlane ''gw-controlplane-b'' ConditionTrue]
       [ownedService []]"





definition readyToMark :: cluster where
  "readyToMark =
     exampleCluster [exampleGatewayClass ''konghq.com/gateway-operator''] [scheduledGateway]
       [ownedDataPlane ConditionTrue]
       [ownedControlPlane ''gw-controlplane'' ConditionTrue]
       [ownedService [\<lparr>ing_IP = ''203.0.113.5'', ing_Hostname = []\<rparr>]]"

text \<open>
  For the ControlPlane reconciler: a generator that configures three replicas, a
  ControlPlane with and without a DataPlane reference, and clusters that hold its
  Deployment running or dormant.
\<close>

definition exampleGenerator :: "ControlPlane \<Rightarrow> string \<Rightarrow> Deployment" where
  "exampleGenerator controlplane serviceAccountName =
     \<lparr>dep_ObjectMeta = emptyObjectMeta\<lparr>Namespace := Namespace (cp_ObjectMeta controlplane),
                         GenerateName := Name (cp_ObjectMeta controlplane) @ ''-''\<rparr>,
      dep_Replicas = Some 3,
      dep_Containers = [\<lparr>ctr_Image = ''kong/kubernetes-ingress-controller'',
                         ctr_Env = [(''POD_NAMESPACE'', ''default'')]\<rparr>],
      dep_StatusReplicas = 0, dep_AvailableReplicas = 0\<rparr>"

definition exampleControlPlane :: "string option \<Rightarrow> ControlPlane" where
  "exampleControlPlane dataplaneName =
     \<lparr>cp_ObjectMeta = exampleMeta ''cp'' ''uid-cp'',
      cp_Spec = \<lparr>cpo_DeploymentOptions = emptyDeploymentOptions\<lparr>opt_Replicas := Some 3\<rparr>,
                 cpo_DataPlane = dataplaneName\<rparr>,
      cp_GatewayClass = None,
      cp_Conditions = []\<rparr>"

definition ownedDeployment :: "int option \<Rightarrow> Deployment" where
  "ownedDeployment replicas =
     \<lparr>dep_ObjectMeta = (ownedMeta ''cp-deployment'' ''uid-dep'' ControlPlaneManagedLabelValue
                          ''uid-cp'')\<lparr>OwnerReferences :=
                            [\<lparr>ref_Kind = ''ControlPlane'', ref_Name = ''cp'', ref_UID = ''uid-cp''\<rparr>]\<rparr>,
      dep_Replicas = replicas,
      dep_Containers = [\<lparr>ctr_Image = ''kong/kubernetes-ingress-controller'',
                         ctr_Env = [(''POD_NAMESPACE'', ''default'')]\<rparr>],
      dep_StatusReplicas = 0, dep_AvailableReplicas = 0\<rparr>"

definition clusterWithDeployments :: "Deployment list \<Rightarrow> cluster" where
  "clusterWithDeployments deployments =
     (exampleCluster [] [] [] [] [])\<lparr>c_Deployments := deployments\<rparr>"

section \<open>Properties of the DataPlane status writers\<close>

lemma markNotProvisionedLoop_types:
  "markNotProvisionedLoop c conds = (conds', found, upd) \<Longrightarrow>
   cond_Type c = DataPlaneConditionTypeProvisioned \<Longrightarrow>
   map cond_Type conds' = map cond_Type conds \<and>
   (found \<longleftrightarrow> DataPlaneConditionTypeProvisioned \<in> set (map cond_Type conds))"
proof (induction conds arbitrary: conds' found upd)
  case Nil
  then show ?case by simp
next
  case (Cons a conds)
  obtain r f u where rec: "markNotProvisionedLoop c conds = (r, f, u)"
    by (cases "markNotProvisionedLoop c conds") auto
  from Cons.IH [OF rec Cons.prems(2)] Cons.prems rec show ?case
    by (auto split: if_splits)
qed

lemma markNotProvisionedLoop_length:
  "markNotProvisionedLoop c conds = (conds', found, upd) \<Longrightarrow> length conds' = length conds"
proof (induction conds arbitrary: conds' found upd)
  case Nil
  then show ?case by simp
next
  case (Cons a conds)
  obtain r f u where rec: "markNotProvisionedLoop c conds = (r, f, u)"
    by (cases "markNotProvisionedLoop c conds") auto
  from Cons.IH [OF rec] Cons.prems rec show ?case
    by (auto split: if_splits)
qed

lemma list_ex_type_iff:
  "list_ex (\<lambda>c. cond_Type c = t) conds \<longleftrightarrow> t \<in> set (map cond_Type conds)"
  by (induction conds) auto

lemma markedScheduled_conditions:
  "dp_Conditions (fst (snd (ensureDataPlaneIsMarkedScheduled r dataplane))) =
     (if DataPlaneConditionTypeProvisioned \<in> set (map cond_Type (dp_Conditions dataplane))
      then dp_Conditions dataplane
      else dp_Conditions dataplane @
        [\<lparr>cond_Type = DataPlaneConditionTypeProvisioned, cond_Status = ConditionFalse,
          cond_ObservedGeneration = Generation (dp_ObjectMeta dataplane),
          cond_LastTransitionTime = r_now r,
          cond_Reason = DataPlaneConditionReasonPodsNotReady,
          cond_Message = ''DataPlane resource is scheduled for provisioning''\<rparr>])"
  by (simp add: ensureDataPlaneIsMarkedScheduled_def Let_def list_ex_type_iff split: prod.splits)

lemma markedProvisioned_types:
  "map cond_Type (dp_Conditions (fst (snd (ensureDataPlaneIsMarkedProvisioned r dataplane)))) =
   map cond_Type (dp_Conditions dataplane)"
  by (simp add: ensureDataPlaneIsMarkedProvisioned_def Let_def comp_def if_distrib
      split: prod.splits cong: if_cong)

lemma markedNotProvisioned_types:
  "map cond_Type
     (dp_Conditions (fst (snd (ensureDataPlaneIsMarkedNotProvisioned r dataplane reason message)))) =
     (if DataPlaneConditionTypeProvisioned \<in> set (map cond_Type (dp_Conditions dataplane))
      then map cond_Type (dp_Conditions dataplane)
      else map cond_Type (dp_Conditions dataplane) @ [DataPlaneConditionTypeProvisioned])"
proof -
  let ?c = "\<lparr>cond_Type = DataPlaneConditionTypeProvisioned, cond_Status = ConditionFalse,
             cond_ObservedGeneration = Generation (dp_ObjectMeta dataplane),
             cond_LastTransitionTime = r_now r, cond_Reason = reason, cond_Message = message\<rparr>"
  obtain r f u where loop: "markNotProvisionedLoop ?c (dp_Conditions dataplane) = (r, f, u)"
    by (cases "markNotProvisionedLoop ?c (dp_Conditions dataplane)") auto
  from markNotProvisionedLoop_types [OF loop]
  have "map cond_Type r = map cond_Type (dp_Conditions dataplane)"
    and "f \<longleftrightarrow> DataPlaneConditionTypeProvisioned \<in> set (map cond_Type (dp_Conditions dataplane))"
    by simp_all
  with loop show ?thesis
    by (simp add: ensureDataPlaneIsMarkedNotProvisioned_def Let_def split: prod.splits)
qed

text \<open>
  C7.  Every writer of the DataPlane's condition list keeps the invariant "at most one
  entry per condition type".  Marking scheduled leaves the list as it is when an entry
  of type Provisioned exists and appends one entry otherwise; marking provisioned and
  marking not-provisioned keep the sequence of types when an entry of type Provisioned
  exists (the entry is overwritten where it stands, the list keeps its length), and
  marking not-provisioned appends one entry only when there is none.
\<close>

theorem condition_writers_keep_one_entry_per_type:
  assumes "oneEntryPerType (dp_Conditions dataplane)"
  shows "oneEntryPerType (dp_Conditions (fst (snd (ensureDataPlaneIsMarkedScheduled r dataplane)))) \<and>
         oneEntryPerType (dp_Conditions (fst (snd (ensureDataPlaneIsMarkedProvisioned r dataplane)))) \<and>
         oneEntryPerType (dp_Conditions
            (fst (snd (ensureDataPlaneIsMarkedNotProvisioned r dataplane reason message)))) \<and>
         (list_ex (\<lambda>c. cond_Type c = DataPlaneConditionTypeProvisioned) (dp_Conditions dataplane) \<longrightarrow>
            dp_Conditions (fst (snd (ensureDataPlaneIsMarkedScheduled r dataplane))) =
              dp_Conditions dataplane \<and>
            map cond_Type (dp_Conditions
              (fst (snd (ensureDataPlaneIsMarkedNotProvisioned r dataplane reason message)))) =
              map cond_Type (dp_Conditions dataplane))"
proof -
  let ?P = "DataPlaneConditionTypeProvisioned"
  let ?ts = "map cond_Type (dp_Conditions dataplane)"
  from assms have d: "distinct ?ts" by (simp add: oneEntryPerType_def)
  have app: "?P \<notin> set ?ts \<Longrightarrow> distinct (?ts @ [?P])" using d by simp
  have s: "oneEntryPerType (dp_Conditions (fst (snd (ensureDataPlaneIsMarkedScheduled r dataplane))))"
    unfolding oneEntryPerType_def markedScheduled_conditions using d by auto
  have p: "oneEntryPerType (dp_Conditions (fst (snd (ensureDataPlaneIsMarkedProvisioned r dataplane))))"
    unfolding oneEntryPerType_def markedProvisioned_types using d .
  have n: "oneEntryPerType (dp_Conditions
            (fst (snd (ensureDataPlaneIsMarkedNotProvisioned r dataplane reason message))))"
    unfolding oneEntryPerType_def markedNotProvisioned_types using d app by auto
  have e: "list_ex (\<lambda>c. cond_Type c = ?P) (dp_Conditions dataplane) \<longleftrightarrow> ?P \<in> set ?ts"
    by (rule list_ex_type_iff)
  show ?thesis
    using s p n by (simp add: e markedScheduled_conditions markedNotProvisioned_types)
qed

theorem condition_writers_keep_one_entry_per_type_witness:
  "oneEntryPerType [exampleCondition ''Provisioned'' ConditionFalse ''PodsNotReady''] \<and>
   dp_Conditions (fst (snd (ensureDataPlaneIsMarkedNotProvisioned
      (exampleReconciler (exampleDataPlane []))
      (exampleDataPlane [exampleCondition ''Provisioned'' ConditionFalse ''PodsNotReady''])
      ''ValidationFailed'' ''bad image''))) =
     [\<lparr>cond_Type = ''Provisioned'', cond_Status = ConditionFalse, cond_ObservedGeneration = 1,
       cond_LastTransitionTime = 5, cond_Reason = ''ValidationFailed'',
       cond_Message = ''bad image''\<rparr>] \<and>
   oneEntryPerType (dp_Conditions (fst (snd (ensureDataPlaneIsMarkedNotProvisioned
      (exampleReconciler (exampleDataPlane []))
      (exampleDataPlane [exampleCondition ''Provisioned'' ConditionFalse ''PodsNotReady''])
      ''ValidationFailed'' ''bad image''))))"
proof -
  have h: "oneEntryPerType (dp_Conditions
      (exampleDataPlane [exampleCondition ''Provisioned'' ConditionFalse ''PodsNotReady'']))"
    by (simp add: oneEntryPerType_def exampleDataPlane_def)
  have v: "dp_Conditions (fst (snd (ensureDataPlaneIsMarkedNotProvisioned
      (exampleReconciler (exampleDataPlane []))
      (exampleDataPlane [exampleCondition ''Provisioned'' ConditionFalse ''PodsNotReady''])
      ''ValidationFailed'' ''bad image''))) =
     [\<lparr>cond_Type = ''Provisioned'', cond_Status = ConditionFalse, cond_ObservedGeneration = 1,
       cond_LastTransitionTime = 5, cond_Reason = ''ValidationFailed'',
       cond_Message = ''bad image''\<rparr>]"
    by (simp add: ensureDataPlaneIsMarkedNotProvisioned_def exampleDataPlane_def
        exampleCondition_def exampleMeta_def DataPlaneConditionTypeProvisioned_def
        isSameDataPlaneCondition_def Let_def exampleReconciler_def StatusUpdate_def)
  from condition_writers_keep_one_entry_per_type [OF h, of "exampleReconciler (exampleDataPlane [])"
      "''ValidationFailed''" "''bad image''"]
  show ?thesis using h v by (simp add: exampleDataPlane_def)
qed

section \<open>Properties of a DataPlane reconcile pass\<close>

lemma markNotProvisionedLoop_same:
  "markNotProvisionedLoop c conds = (conds', found, upd) \<Longrightarrow>
   cond_Type c = DataPlaneConditionTypeProvisioned \<Longrightarrow>
   list_all (isSameDataPlaneCondition c)
     (filter (\<lambda>x. cond_Type x = DataPlaneConditionTypeProvisioned) conds')"
proof (induction conds arbitrary: conds' found upd)
  case Nil
  then show ?case by simp
next
  case (Cons a conds)
  obtain r f u where rec: "markNotProvisionedLoop c conds = (r, f, u)"
    by (cases "markNotProvisionedLoop c conds") auto
  from Cons.IH [OF rec Cons.prems(2)] Cons.prems rec show ?case
    by (auto simp: isSameDataPlaneCondition_def split: if_splits)
qed

lemma markNotProvisionedLoop_unchanged:
  "markNotProvisionedLoop c conds = (conds', found, False) \<Longrightarrow> conds' = conds"
proof (induction conds arbitrary: conds' found)
  case Nil
  then show ?case by simp
next
  case (Cons a conds)
  obtain r f u where rec: "markNotProvisionedLoop c conds = (r, f, u)"
    by (cases "markNotProvisionedLoop c conds") auto
  from Cons.prems rec have "u = False" by (auto split: if_splits)
  with Cons.IH rec Cons.prems show ?case
    by (auto split: if_splits)
qed

lemma markedNotProvisioned_result:
  assumes "ensureDataPlaneIsMarkedNotProvisioned r dataplane reason message = (err, dataplane', r')"
  shows "provisionedIs ConditionFalse reason message (dp_Conditions dataplane') \<and>
         (r' = did (StatusUpdated dataplane') r \<and> err = r_StatusUpdate r dataplane' \<or>
          r' = r \<and> err = None \<and> dataplane' = dataplane)"
proof -
  let ?c = "\<lparr>cond_Type = DataPlaneConditionTypeProvisioned, cond_Status = ConditionFalse,
             cond_ObservedGeneration = Generation (dp_ObjectMeta dataplane),
             cond_LastTransitionTime = r_now r, cond_Reason = reason, cond_Message = message\<rparr>"
  obtain cs f u where loop: "markNotProvisionedLoop ?c (dp_Conditions dataplane) = (cs, f, u)"
    by (cases "markNotProvisionedLoop ?c (dp_Conditions dataplane)") auto
  have same: "list_all (isSameDataPlaneCondition ?c)
     (filter (\<lambda>x. cond_Type x = DataPlaneConditionTypeProvisioned) cs)"
    using markNotProvisionedLoop_same [OF loop] by simp
  have found: "f \<longleftrightarrow> DataPlaneConditionTypeProvisioned \<in> set (map cond_Type (dp_Conditions dataplane))"
    and types: "map cond_Type cs = map cond_Type (dp_Conditions dataplane)"
    using markNotProvisionedLoop_types [OF loop] by simp_all
  have nonempty: "f \<Longrightarrow> filter (\<lambda>x. cond_Type x = DataPlaneConditionTypeProvisioned) cs \<noteq> []"
  proof -
    assume f
    then have "DataPlaneConditionTypeProvisioned \<in> set (map cond_Type cs)"
      using found types by simp
    then obtain x where "x \<in> set cs" "cond_Type x = DataPlaneConditionTypeProvisioned"
      by force
    then show ?thesis by (auto simp: filter_empty_conv)
  qed
  have unchanged: "\<not> u \<Longrightarrow> cs = dp_Conditions dataplane"
    using markNotProvisionedLoop_unchanged [of ?c "dp_Conditions dataplane" cs f] loop by simp
  have all: "list_all (\<lambda>c. cond_Status c = ConditionFalse \<and> cond_Reason c = reason \<and>
                        cond_Message c = message)
      (filter (\<lambda>x. cond_Type x = DataPlaneConditionTypeProvisioned) cs)"
    using same by (auto simp: list_all_iff isSameDataPlaneCondition_def)
  show ?thesis
    using assms loop all nonempty unchanged
    by (auto simp: ensureDataPlaneIsMarkedNotProvisioned_def provisionedIs_def Let_def
        StatusUpdate_def split: if_splits)
qed


lemma reconcile_reaches_validation:
  assumes "r_Get r = Inr fetched"
    and "r_ensureIsMarkedScheduled r (r_InitReady r fetched) = (False, dataplane)"
    and "r_ensureServiceForDataPlane r dataplane = Inr (False, dataplaneService)"
    and "svc_ClusterIP dataplaneService \<noteq> []"
  shows "DataPlaneReconcile r = validateDataPlane (did ServiceEnsured r) dataplane dataplaneService"
  using assms by (simp add: DataPlaneReconcile_def exposeDataPlane_def Let_def)

lemma did_fields [simp]:
  "r_Validate (did a r) = r_Validate r"
  "r_StatusUpdate (did a r) = r_StatusUpdate r"
  "r_Update (did a r) = r_Update r"
  "r_now (did a r) = r_now r"
  "actions (did a r) = actions r @ [a]"
  by (simp_all add: did_def)

text \<open>
  C3.  A pass that reaches the validator and gets an error from it records the warning
  event ValidationFailed with the validator's message, leaves the Provisioned condition
  False with reason ValidationFailed and that same message (submitting the status
  update unless the condition already reads so), returns the outcome of that update,
  and does nothing else: after the call of the Service ensurer the only actions are the
  event and the status update, so neither the TLS Secret nor the Deployment is ensured.
\<close>

theorem validation_failure_halts_provisioning:
  assumes "r_Get r = Inr fetched"
    and "r_ensureIsMarkedScheduled r (r_InitReady r fetched) = (False, dataplane)"
    and "r_ensureServiceForDataPlane r dataplane = Inr (False, dataplaneService)"
    and "svc_ClusterIP dataplaneService \<noteq> []"
    and "opt_Env (dp_Spec dataplane) \<noteq> [] \<or> opt_EnvFrom (dp_Spec dataplane) \<noteq> []"
    and "r_Validate r dataplane = Some errMessage"
    and "actions r = []"
  shows "\<exists>markErr dataplane' r'.
           DataPlaneReconcile r = ((Result0, markErr), r') \<and>
           provisionedIs ConditionFalse ''ValidationFailed'' errMessage (dp_Conditions dataplane') \<and>
           (actions r' = [ServiceEnsured, EventRecorded ''Warning'' ''ValidationFailed'' errMessage,
                          StatusUpdated dataplane'] \<and>
              markErr = r_StatusUpdate r dataplane' \<or>
            actions r' = [ServiceEnsured, EventRecorded ''Warning'' ''ValidationFailed'' errMessage] \<and>
              markErr = None \<and> dataplane' = dataplane)"
proof -
  let ?r1 = "did (EventRecorded ''Warning'' ''ValidationFailed'' errMessage) (did ServiceEnsured r)"
  obtain markErr dataplane' r' where
    mark: "ensureDataPlaneIsMarkedNotProvisioned ?r1 dataplane ''ValidationFailed'' errMessage =
             (markErr, dataplane', r')"
    by (cases "ensureDataPlaneIsMarkedNotProvisioned ?r1 dataplane ''ValidationFailed'' errMessage")
      auto
  have run: "DataPlaneReconcile r = ((Result0, markErr), r')"
    using assms mark
    by (auto simp: reconcile_reaches_validation [OF assms(1-4)] validateDataPlane_def Let_def
        DataPlaneConditionValidationFailed_def)
  from markedNotProvisioned_result [OF mark] assms(7) run show ?thesis
    by auto
qed


lemma validateDataPlane_deployment:
  assumes "DeploymentEnsured n \<in> set (actions (snd (validateDataPlane r dataplane dataplaneService)))"
    and "DeploymentEnsured n \<notin> set (actions r)"
  shows "r_Validate r dataplane = None"
proof (rule ccontr)
  assume "r_Validate r dataplane \<noteq> None"
  then obtain msg where val: "r_Validate r dataplane = Some msg" by auto
  let ?r1 = "did (EventRecorded ''Warning'' ''ValidationFailed'' msg) r"
  obtain markErr dataplane' r' where
    mark: "ensureDataPlaneIsMarkedNotProvisioned ?r1 dataplane ''ValidationFailed'' msg =
             (markErr, dataplane', r')"
    by (cases "ensureDataPlaneIsMarkedNotProvisioned ?r1 dataplane ''ValidationFailed'' msg") auto
  from markedNotProvisioned_result [OF mark]
  have "set (actions r') \<subseteq> set (actions r) \<union>
          {EventRecorded ''Warning'' ''ValidationFailed'' msg, StatusUpdated dataplane'}"
    by auto
  with assms val mark show False
    by (auto simp: validateDataPlane_def Let_def Update_def DataPlaneConditionValidationFailed_def
        split: if_splits option.splits prod.splits)
qed

text \<open>
  C4.  In a pass that starts with an empty action list, the Deployment ensurer is called
  only if the Service ensurer reported nothing to do and returned a Service with a
  non-empty ClusterIP, and the validator returned nil on the DataPlane of the pass.
  When the Service ensurer reports nothing to do and the Service has no ClusterIP, the
  pass returns the zero Result and no error, and its only action is the call of the
  Service ensurer.
\<close>

theorem deployment_only_after_cluster_ip_and_validation:
  assumes "actions r = []"
  shows "(DeploymentEnsured n \<in> set (actions (snd (DataPlaneReconcile r))) \<longrightarrow>
            (\<exists>fetched dataplane dataplaneService.
               r_Get r = Inr fetched \<and>
               r_ensureIsMarkedScheduled r (r_InitReady r fetched) = (False, dataplane) \<and>
               r_ensureServiceForDataPlane r dataplane = Inr (False, dataplaneService) \<and>
               svc_ClusterIP dataplaneService \<noteq> [] \<and>
               r_Validate r dataplane = None)) \<and>
         (\<forall>fetched dataplane dataplaneService.
            r_Get r = Inr fetched \<and>
            r_ensureIsMarkedScheduled r (r_InitReady r fetched) = (False, dataplane) \<and>
            r_ensureServiceForDataPlane r dataplane = Inr (False, dataplaneService) \<and>
            svc_ClusterIP dataplaneService = [] \<longrightarrow>
            DataPlaneReconcile r = ((Result0, None), did ServiceEnsured r))"
proof (intro conjI impI allI)
  assume dep: "DeploymentEnsured n \<in> set (actions (snd (DataPlaneReconcile r)))"
  from dep assms obtain fetched where get: "r_Get r = Inr fetched"
    by (cases "r_Get r") (auto simp: DataPlaneReconcile_def split: if_splits)
  obtain b dataplane where
    sched: "r_ensureIsMarkedScheduled r (r_InitReady r fetched) = (b, dataplane)"
    by (cases "r_ensureIsMarkedScheduled r (r_InitReady r fetched)") auto
  have nb: "\<not> b"
    using dep assms get sched
    by (auto simp: DataPlaneReconcile_def updateStatus_def StatusUpdate_def
        split: sum.splits if_splits prod.splits)
  with dep get sched have
    ex: "DeploymentEnsured n \<in> set (actions (snd (exposeDataPlane r dataplane)))"
    by (simp add: DataPlaneReconcile_def)
  from ex assms obtain c dataplaneService where
    svc: "r_ensureServiceForDataPlane r dataplane = Inr (c, dataplaneService)"
    by (cases "r_ensureServiceForDataPlane r dataplane")
      (auto simp: exposeDataPlane_def Let_def)
  have nc: "\<not> c" and ip: "svc_ClusterIP dataplaneService \<noteq> []"
    using ex assms svc by (auto simp: exposeDataPlane_def Let_def split: if_splits)
  from ex svc nc ip have
    "DeploymentEnsured n \<in> set (actions (snd (validateDataPlane (did ServiceEnsured r)
        dataplane dataplaneService)))"
    by (simp add: exposeDataPlane_def Let_def)
  then have "r_Validate r dataplane = None"
    using validateDataPlane_deployment [of n "did ServiceEnsured r" dataplane dataplaneService]
      assms by simp
  with get sched nb svc nc ip
  show "\<exists>fetched dataplane dataplaneService.
               r_Get r = Inr fetched \<and>
               r_ensureIsMarkedScheduled r (r_InitReady r fetched) = (False, dataplane) \<and>
               r_ensureServiceForDataPlane r dataplane = Inr (False, dataplaneService) \<and>
               svc_ClusterIP dataplaneService \<noteq> [] \<and>
               r_Validate r dataplane = None"
    by auto
next
  fix fetched dataplane dataplaneService
  assume "r_Get r = Inr fetched \<and>
            r_ensureIsMarkedScheduled r (r_InitReady r fetched) = (False, dataplane) \<and>
            r_ensureServiceForDataPlane r dataplane = Inr (False, dataplaneService) \<and>
            svc_ClusterIP dataplaneService = []"
  then show "DataPlaneReconcile r = ((Result0, None), did ServiceEnsured r)"
    by (simp add: DataPlaneReconcile_def exposeDataPlane_def Let_def)
qed

theorem validation_failure_halts_provisioning_witness:
  "r_Get rejectingReconciler = Inr scheduledDataPlane \<and>
   r_Validate rejectingReconciler scheduledDataPlane = Some ''bad image'' \<and>
   actions rejectingReconciler = [] \<and>
   (\<exists>markErr dataplane' r'.
      DataPlaneReconcile rejectingReconciler = ((Result0, markErr), r') \<and>
      provisionedIs ConditionFalse ''ValidationFailed'' ''bad image'' (dp_Conditions dataplane') \<and>
      (actions r' = [ServiceEnsured, EventRecorded ''Warning'' ''ValidationFailed'' ''bad image'',
                     StatusUpdated dataplane'] \<and>
         markErr = r_StatusUpdate rejectingReconciler dataplane' \<or>
       actions r' = [ServiceEnsured, EventRecorded ''Warning'' ''ValidationFailed'' ''bad image''] \<and>
         markErr = None \<and> dataplane' = scheduledDataPlane))"
proof -
  have h1: "r_Get rejectingReconciler = Inr scheduledDataPlane"
    by (simp add: rejectingReconciler_def exampleReconciler_def)
  have h2: "r_ensureIsMarkedScheduled rejectingReconciler
              (r_InitReady rejectingReconciler scheduledDataPlane) = (False, scheduledDataPlane)"
    by (simp add: rejectingReconciler_def exampleReconciler_def)
  have h3: "r_ensureServiceForDataPlane rejectingReconciler scheduledDataPlane =
              Inr (False, exampleService ''10.0.0.7'' [])"
    by (simp add: rejectingReconciler_def exampleReconciler_def)
  have h4: "svc_ClusterIP (exampleService ''10.0.0.7'' []) \<noteq> []"
    by (simp add: exampleService_def)
  have h5: "opt_Env (dp_Spec scheduledDataPlane) \<noteq> [] \<or>
            opt_EnvFrom (dp_Spec scheduledDataPlane) \<noteq> []"
    by (simp add: scheduledDataPlane_def exampleDataPlane_def)
  have h6: "r_Validate rejectingReconciler scheduledDataPlane = Some ''bad image''"
    by (simp add: rejectingReconciler_def exampleReconciler_def)
  have h7: "actions rejectingReconciler = []"
    by (simp add: rejectingReconciler_def exampleReconciler_def)
  from validation_failure_halts_provisioning [OF h1 h2 h3 h4 h5 h6 h7] h1 h6 h7
  show ?thesis by blast
qed

theorem deployment_only_after_cluster_ip_and_validation_witness:
  "actions (exampleReconciler scheduledDataPlane) = [] \<and>
   DeploymentEnsured ''secret-1'' \<in>
     set (actions (snd (DataPlaneReconcile (exampleReconciler scheduledDataPlane)))) \<and>
   (\<exists>fetched dataplane dataplaneService.
      r_Get (exampleReconciler scheduledDataPlane) = Inr fetched \<and>
      r_ensureIsMarkedScheduled (exampleReconciler scheduledDataPlane)
        (r_InitReady (exampleReconciler scheduledDataPlane) fetched) = (False, dataplane) \<and>
      r_ensureServiceForDataPlane (exampleReconciler scheduledDataPlane) dataplane =
        Inr (False, dataplaneService) \<and>
      svc_ClusterIP dataplaneService \<noteq> [] \<and>
      r_Validate (exampleReconciler scheduledDataPlane) dataplane = None) \<and>
   actions pendingServiceReconciler = [] \<and>
   r_ensureServiceForDataPlane pendingServiceReconciler scheduledDataPlane =
     Inr (False, exampleService [] []) \<and>
   DataPlaneReconcile pendingServiceReconciler =
     ((Result0, None), did ServiceEnsured pendingServiceReconciler)"
proof -
  have a1: "actions (exampleReconciler scheduledDataPlane) = []"
    by (simp add: exampleReconciler_def)
  have d: "DeploymentEnsured ''secret-1'' \<in>
     set (actions (snd (DataPlaneReconcile (exampleReconciler scheduledDataPlane))))"
    by (simp add: DataPlaneReconcile_def exposeDataPlane_def validateDataPlane_def
        ensureOwnedSecretAndDeployment_def checkDeploymentReadiness_def updateStatus_def
        exampleReconciler_def scheduledDataPlane_def exampleDataPlane_def exampleService_def
        exampleSecret_def exampleDeployment_def exampleMeta_def did_def Let_def)
  have a2: "actions pendingServiceReconciler = []"
    by (simp add: pendingServiceReconciler_def exampleReconciler_def)
  have g: "r_Get pendingServiceReconciler = Inr scheduledDataPlane \<and>
      r_ensureIsMarkedScheduled pendingServiceReconciler
        (r_InitReady pendingServiceReconciler scheduledDataPlane) = (False, scheduledDataPlane) \<and>
      r_ensureServiceForDataPlane pendingServiceReconciler scheduledDataPlane =
        Inr (False, exampleService [] []) \<and>
      svc_ClusterIP (exampleService [] []) = []"
    by (simp add: pendingServiceReconciler_def exampleReconciler_def exampleService_def)
  from deployment_only_after_cluster_ip_and_validation [OF a1, of "''secret-1''"] d
  have e: "\<exists>fetched dataplane dataplaneService.
      r_Get (exampleReconciler scheduledDataPlane) = Inr fetched \<and>
      r_ensureIsMarkedScheduled (exampleReconciler scheduledDataPlane)
        (r_InitReady (exampleReconciler scheduledDataPlane) fetched) = (False, dataplane) \<and>
      r_ensureServiceForDataPlane (exampleReconciler scheduledDataPlane) dataplane =
        Inr (False, dataplaneService) \<and>
      svc_ClusterIP dataplaneService \<noteq> [] \<and>
      r_Validate (exampleReconciler scheduledDataPlane) dataplane = None"
    by blast
  from deployment_only_after_cluster_ip_and_validation [OF a2, of "''secret-1''"] g
  have p: "DataPlaneReconcile pendingServiceReconciler =
     ((Result0, None), did ServiceEnsured pendingServiceReconciler)"
    by blast
  from a1 d e a2 g p show ?thesis by blast
qed

text \<open>
  C9.  Two of the status updates of a pass return a conflict to the caller as an error.
  The first pass over a fresh DataPlane marks it scheduled in memory and submits the
  status; when that update answers with a conflict, the pass returns the conflict with
  the zero Result, where the claim has a requeue and no error.  The same holds for the
  status update that records a validation failure.
\<close>

theorem conflict_on_unguarded_status_update_is_returned:
  "fst (DataPlaneReconcile conflictOnScheduling) = (Result0, Some Conflict) \<and>
   fst (DataPlaneReconcile conflictOnValidationFailure) = (Result0, Some Conflict)"
  by (simp add: DataPlaneReconcile_def exposeDataPlane_def validateDataPlane_def updateStatus_def
      ensureDataPlaneIsMarkedNotProvisioned_def isSameDataPlaneCondition_def
      StatusUpdate_def conflictOnScheduling_def conflictOnValidationFailure_def
      rejectingReconciler_def exampleReconciler_def scheduledDataPlane_def exampleDataPlane_def
      exampleCondition_def exampleService_def exampleMeta_def did_def Let_def
      DataPlaneConditionTypeProvisioned_def DataPlaneConditionValidationFailed_def)

text \<open>
  The two updates that \<^verbatim>\<open>Reconcile\<close> guards with \<^verbatim>\<open>k8serrors.IsConflict\<close>: the
  update of the spec after the defaults were set, and the status update at the end of
  the pass.  A conflict there gives a requeue after \<^verbatim>\<open>requeueWithoutBackoff\<close> and no
  error; any other error is returned.
\<close>

lemma guarded_spec_update:
  assumes "opt_Env (dp_Spec dataplane) = []" and "opt_EnvFrom (dp_Spec dataplane) = []"
    and "r_Update r (dataplane\<lparr>dp_Spec := r_SetDataPlaneDefaults r (dp_Spec dataplane)\<rparr>) = Some err"
  shows "fst (validateDataPlane r dataplane dataplaneService) =
           (if err = Conflict then (\<lparr>Requeue = True, RequeueAfter = requeueWithoutBackoff r\<rparr>, None)
            else (Result0, Some err))"
  using assms by (simp add: validateDataPlane_def Update_def IsConflict_def Let_def)

lemma guarded_final_status_update:
  assumes "dep_StatusReplicas dataplaneDeployment \<noteq> 0"
    and "\<not> dep_AvailableReplicas dataplaneDeployment < dep_StatusReplicas dataplaneDeployment"
    and "fst (updateStatus r (r_ensureIsMarkedProvisioned r dataplane)) = Some err"
  shows "fst (checkDeploymentReadiness r dataplane dataplaneDeployment) =
           (if err = Conflict then (\<lparr>Requeue = True, RequeueAfter = requeueWithoutBackoff r\<rparr>, None)
            else (Result0, Some err))"
  using assms
  by (cases "updateStatus r (r_ensureIsMarkedProvisioned r dataplane)")
    (simp add: checkDeploymentReadiness_def IsConflict_def Let_def)

section \<open>Properties of the Gateway reconciler and of the ControlPlane's Deployment\<close>

lemma request_frame:
  "request c = (e, c') \<Longrightarrow> c' = c\<lparr>c_requests := Suc (c_requests c)\<rparr>"
  by (auto simp: request_def)








lemma single_element: "length xs = 1 \<Longrightarrow> xs = [hd xs]"
  by (cases xs) auto

lemma GenerateNewDataPlaneForGateway_conditions [simp]:
  "dp_Conditions (GenerateNewDataPlaneForGateway gateway cfg) = []"
  by (simp add: GenerateNewDataPlaneForGateway_def)

lemma GenerateNewControlPlaneForGateway_conditions [simp]:
  "cp_Conditions (GenerateNewControlPlaneForGateway gatewayClass gateway cfg n) = []"
  by (simp add: GenerateNewControlPlaneForGateway_def Let_def)











lemma ensureGatewayMarkedReady_marks:
  assumes "\<not> g_IsGatewayReady g gateway"
    and "ListServicesForOwner GatewayOperatorControlledLabel DataPlaneManagedLabelValue
           (Namespace (dp_ObjectMeta dataplane)) (UID (dp_ObjectMeta dataplane)) c = (Inr [svc], c1)"
    and "svc_ClusterIP svc \<noteq> []"
  shows "ensureGatewayMarkedReady g gateway dataplane c =
           ((fst (StatusUpdateGateway
                    (gateway\<lparr>gw_Addresses := gatewayAddresses svc,
                              gw_Conditions := [readyCondition g gateway]\<rparr>) c1),
             gateway\<lparr>gw_Addresses := gatewayAddresses svc,
                       gw_Conditions := [readyCondition g gateway]\<rparr>),
            snd (StatusUpdateGateway
                   (gateway\<lparr>gw_Addresses := gatewayAddresses svc,
                             gw_Conditions := [readyCondition g gateway]\<rparr>) c1))"
  using assms
  by (simp add: ensureGatewayMarkedReady_def Let_def PruneGatewayStatusConds_def
      readyCondition_def split: prod.splits)

lemma replace_matching_ex:
  "list_ex P xs \<Longrightarrow> (\<And>x. P x \<Longrightarrow> P (f x)) \<Longrightarrow>
   list_ex P (map (\<lambda>x. if P x then f x else x) xs)"
  by (induction xs) auto

lemma replace_matching_all:
  "(\<And>x. P x \<Longrightarrow> Q (f x)) \<Longrightarrow>
   list_all Q (filter P (map (\<lambda>x. if P x then f x else x) xs))"
  by (induction xs) auto

lemma StatusUpdateGateway_stored:
  assumes "StatusUpdateGateway gateway c = (None, c')"
  shows "list_ex (\<lambda>stored. sameKey (gw_ObjectMeta stored) (gw_ObjectMeta gateway)) (c_Gateways c') \<and>
         list_all (\<lambda>stored. gw_Conditions stored = gw_Conditions gateway \<and>
                              gw_Addresses stored = gw_Addresses gateway)
           (filter (\<lambda>stored. sameKey (gw_ObjectMeta stored) (gw_ObjectMeta gateway))
              (c_Gateways c'))"
proof -
  let ?P = "\<lambda>stored. sameKey (gw_ObjectMeta stored) (gw_ObjectMeta gateway)"
  let ?f = "\<lambda>g. g\<lparr>gw_Conditions := gw_Conditions gateway, gw_Addresses := gw_Addresses gateway\<rparr>"
  from assms have ex: "list_ex ?P (c_Gateways c)"
    and c': "c_Gateways c' = map (\<lambda>g. if ?P g then ?f g else g) (c_Gateways c)"
    by (auto simp: StatusUpdateGateway_def request_def split: option.splits if_splits)
  have "list_ex ?P (map (\<lambda>g. if ?P g then ?f g else g) (c_Gateways c))"
    using ex by (rule replace_matching_ex) (simp add: sameKey_def)
  moreover have "list_all (\<lambda>stored. gw_Conditions stored = gw_Conditions gateway \<and>
                              gw_Addresses stored = gw_Addresses gateway)
           (filter ?P (map (\<lambda>g. if ?P g then ?f g else g) (c_Gateways c)))"
    by (rule replace_matching_all) simp
  ultimately show ?thesis unfolding c' by simp
qed

text \<open>
  C10.  When \<^verbatim>\<open>ensureGatewayMarkedReady\<close> finds the Gateway not ready, exactly one
  Service of the DataPlane and a ClusterIP on it, the Gateway it submits has a condition
  list of exactly one entry, Ready with status True: the entries the Gateway had before,
  the Scheduled condition among them, are gone.  When the status update is accepted, the
  stored Gateway has that one-entry list.
\<close>

theorem ready_mark_replaces_condition_list:
  assumes "\<not> g_IsGatewayReady g gateway"
    and "ListServicesForOwner GatewayOperatorControlledLabel DataPlaneManagedLabelValue
           (Namespace (dp_ObjectMeta dataplane)) (UID (dp_ObjectMeta dataplane)) c = (Inr [svc], c1)"
    and "svc_ClusterIP svc \<noteq> []"
  shows "gw_Conditions (snd (fst (ensureGatewayMarkedReady g gateway dataplane c))) =
           [\<lparr>cond_Type = ''Ready'', cond_Status = ConditionTrue,
             cond_ObservedGeneration = Generation (gw_ObjectMeta gateway),
             cond_LastTransitionTime = g_now g, cond_Reason = ''Ready'', cond_Message = []\<rparr>] \<and>
         (fst (fst (ensureGatewayMarkedReady g gateway dataplane c)) = None \<longrightarrow>
            list_ex (\<lambda>stored. sameKey (gw_ObjectMeta stored) (gw_ObjectMeta gateway))
              (c_Gateways (snd (ensureGatewayMarkedReady g gateway dataplane c))) \<and>
            list_all (\<lambda>stored. gw_Conditions stored =
                 [\<lparr>cond_Type = ''Ready'', cond_Status = ConditionTrue,
                   cond_ObservedGeneration = Generation (gw_ObjectMeta gateway),
                   cond_LastTransitionTime = g_now g, cond_Reason = ''Ready'',
                   cond_Message = []\<rparr>])
              (filter (\<lambda>stored. sameKey (gw_ObjectMeta stored) (gw_ObjectMeta gateway))
                 (c_Gateways (snd (ensureGatewayMarkedReady g gateway dataplane c)))))"
proof -
  let ?marked = "gateway\<lparr>gw_Addresses := gatewayAddresses svc,
                        gw_Conditions := [readyCondition g gateway]\<rparr>"
  note m = ensureGatewayMarkedReady_marks [OF assms]
  have rc: "readyCondition g gateway =
     \<lparr>cond_Type = ''Ready'', cond_Status = ConditionTrue,
       cond_ObservedGeneration = Generation (gw_ObjectMeta gateway),
       cond_LastTransitionTime = g_now g, cond_Reason = ''Ready'', cond_Message = []\<rparr>"
    by (simp add: readyCondition_def GatewayConditionReady_def GatewayReasonReady_def)
  have st: "fst (StatusUpdateGateway ?marked c1) = None \<Longrightarrow>
      list_ex (\<lambda>stored. sameKey (gw_ObjectMeta stored) (gw_ObjectMeta gateway))
        (c_Gateways (snd (StatusUpdateGateway ?marked c1))) \<and>
      list_all (\<lambda>stored. gw_Conditions stored = [readyCondition g gateway])
        (filter (\<lambda>stored. sameKey (gw_ObjectMeta stored) (gw_ObjectMeta gateway))
           (c_Gateways (snd (StatusUpdateGateway ?marked c1))))"
    using StatusUpdateGateway_stored [of ?marked c1 "snd (StatusUpdateGateway ?marked c1)"]
    by (cases "StatusUpdateGateway ?marked c1") (auto simp: list_all_iff)
  show ?thesis
    unfolding m using st by (simp add: rc)
qed

text \<open>
  C6, as amended.  Under the same conditions the addresses written to the Gateway are,
  in this order, the IP of the first load-balancer ingress entry of the Service when
  there is one, and the ClusterIP of the Service, which is always there; each has the
  type IPAddress.
\<close>

theorem gateway_addresses_from_service:
  assumes "\<not> g_IsGatewayReady g gateway"
    and "ListServicesForOwner GatewayOperatorControlledLabel DataPlaneManagedLabelValue
           (Namespace (dp_ObjectMeta dataplane)) (UID (dp_ObjectMeta dataplane)) c = (Inr [svc], c1)"
    and "svc_ClusterIP svc \<noteq> []"
  shows "map addr_Value (gw_Addresses (snd (fst (ensureGatewayMarkedReady g gateway dataplane c)))) =
           (case svc_Ingress svc of
              [] \<Rightarrow> [svc_ClusterIP svc]
            | ingress # _ \<Rightarrow> [ing_IP ingress, svc_ClusterIP svc]) \<and>
         list_all (\<lambda>address. addr_Type address = Some ''IPAddress'')
           (gw_Addresses (snd (fst (ensureGatewayMarkedReady g gateway dataplane c))))"
  unfolding ensureGatewayMarkedReady_marks [OF assms]
  by (simp add: gatewayAddresses_def IPAddressType_def comp_def split: list.splits)

lemma EnsureObjectMetaIsUpdated_key:
  "EnsureObjectMetaIsUpdated existing generated = Inr (updated, meta) \<Longrightarrow>
   Name meta = Name existing \<and> Namespace meta = Namespace existing"
  by (auto simp: EnsureObjectMetaIsUpdated_def Let_def split: option.splits if_splits)

lemma UpdateDeployment_stored:
  assumes "UpdateDeployment deployment c = (None, c')"
  shows "list_ex (\<lambda>stored. sameKey (dep_ObjectMeta stored) (dep_ObjectMeta deployment) \<and>
                            dep_Replicas stored = dep_Replicas deployment) (c_Deployments c')"
proof -
  let ?P = "\<lambda>stored. sameKey (dep_ObjectMeta stored) (dep_ObjectMeta deployment)"
  let ?f = "\<lambda>d. deployment\<lparr>dep_StatusReplicas := dep_StatusReplicas d,
                             dep_AvailableReplicas := dep_AvailableReplicas d\<rparr>"
  from assms have ex: "list_ex ?P (c_Deployments c)"
    and c': "c_Deployments c' = map (\<lambda>d. if ?P d then ?f d else d) (c_Deployments c)"
    by (auto simp: UpdateDeployment_def request_def split: option.splits if_splits)
  from ex obtain d where d: "d \<in> set (c_Deployments c)" "?P d"
    by (auto simp: list_ex_iff)
  then have "?f d \<in> set (c_Deployments c')" unfolding c' by force
  then show ?thesis
    by (auto simp: list_ex_iff sameKey_def intro!: bexI [of _ "?f d"])
qed

lemma updateIfChanged_result:
  assumes "updateIfChanged updated existing c = (Inr (changed, deployment), c')"
  shows "deployment = existing \<and> changed = updated \<and>
         (updated \<longrightarrow> list_ex (\<lambda>stored. sameKey (dep_ObjectMeta stored) (dep_ObjectMeta existing) \<and>
                            dep_Replicas stored = dep_Replicas existing) (c_Deployments c')) \<and>
         (\<not> updated \<longrightarrow> c' = c)"
  using assms UpdateDeployment_stored [of existing c c']
  by (auto simp: updateIfChanged_def split: if_splits prod.splits option.splits)

lemma ListDeploymentsForOwner_result:
  "ListDeploymentsForOwner GatewayOperatorControlledLabel ControlPlaneManagedLabelValue
     (Namespace (cp_ObjectMeta controlplane)) (UID (cp_ObjectMeta controlplane)) c = (r, c') \<Longrightarrow>
   c' = c\<lparr>c_requests := Suc (c_requests c)\<rparr> \<and>
   (\<forall>deployments. r = Inr deployments \<longrightarrow> deployments = ownedDeployments controlplane c)"
  by (auto simp: ListDeploymentsForOwner_def ListDeployments_def ownedDeployments_def request_def
      split: prod.splits sum.splits option.splits)

text \<open>
  C5.  Whenever \<^verbatim>\<open>ensureDeploymentForControlPlane\<close> returns without error: if the
  ControlPlane's DataPlane reference is nil or empty, the Deployment returned has zero
  replicas whatever the generator configured, and a Deployment with its key is stored
  with zero replicas (created so, scaled down, or already so); if the reference is set
  and the ControlPlane owns exactly one Deployment, whose replicas are zero, the pass
  reports a change and the Deployment returned and stored has its replicas unset.
\<close>

theorem dormant_controlplane_deployment:
  assumes "ensureDeploymentForControlPlane generate controlplane serviceAccountName c =
             (Inr (changed, deployment), c')"
  shows "(cpo_DataPlane (cp_Spec controlplane) = None \<or>
          cpo_DataPlane (cp_Spec controlplane) = Some [] \<longrightarrow>
            dep_Replicas deployment = Some 0 \<and>
            list_ex (\<lambda>stored. sameKey (dep_ObjectMeta stored) (dep_ObjectMeta deployment) \<and>
                               dep_Replicas stored = Some 0) (c_Deployments c')) \<and>
         (cpo_DataPlane (cp_Spec controlplane) \<noteq> None \<and>
          cpo_DataPlane (cp_Spec controlplane) \<noteq> Some [] \<and>
          list_all (\<lambda>existing. dep_Replicas existing = Some 0) (ownedDeployments controlplane c) \<and>
          length (ownedDeployments controlplane c) = 1 \<longrightarrow>
            changed \<and> dep_Replicas deployment = None \<and>
            list_ex (\<lambda>stored. sameKey (dep_ObjectMeta stored) (dep_ObjectMeta deployment) \<and>
                               dep_Replicas stored = None) (c_Deployments c'))"
proof -
  let ?list = "ListDeploymentsForOwner GatewayOperatorControlledLabel ControlPlaneManagedLabelValue
     (Namespace (cp_ObjectMeta controlplane)) (UID (cp_ObjectMeta controlplane)) c"
  obtain rl c1 where l: "?list = (rl, c1)" by (cases ?list) auto
  note lr = ListDeploymentsForOwner_result [OF l]
  from assms l obtain deployments where rl: "rl = Inr deployments"
    by (cases rl) (auto simp: ensureDeploymentForControlPlane_def Let_def)
  with lr have owned: "deployments = ownedDeployments controlplane c"
    and c1: "c_Deployments c1 = c_Deployments c" by simp_all
  show ?thesis
  proof (cases "length deployments = 1")
    case True
    then obtain d where one: "deployments = [d]" by (cases deployments) auto
    with owned have o: "ownedDeployments controlplane c = [d]" by simp
    then have "d \<in> set (c_Deployments c)"
      by (metis filter_is_subset list.set_intros(1) ownedDeployments_def subsetD)
    then have stored: "d \<in> set (c_Deployments c1)" using c1 by simp
    let ?gen = "labelObj ControlPlaneManagedLabelValue
                  (SetOwnerForObject ''ControlPlane''
                     (dep_ObjectMeta (generate controlplane serviceAccountName))
                     (cp_ObjectMeta controlplane))"
    from assms l rl one obtain updated meta where
      em: "EnsureObjectMetaIsUpdated (dep_ObjectMeta d) ?gen = Inr (updated, meta)"
      by (cases "EnsureObjectMetaIsUpdated (dep_ObjectMeta d) ?gen")
        (auto simp: ensureDeploymentForControlPlane_def Let_def)
    note key = EnsureObjectMetaIsUpdated_key [OF em]
    have unchanged: "list_ex (\<lambda>stored. sameKey (dep_ObjectMeta stored) meta \<and>
                       dep_Replicas stored = dep_Replicas d) (c_Deployments c1)"
      using stored key by (auto simp: list_ex_iff sameKey_def)
    from assms l rl one em unchanged show ?thesis
      unfolding o
      by (auto simp: ensureDeploymentForControlPlane_def Let_def numReplicasWhenNoDataplane_def
          dest!: updateIfChanged_result split: if_splits option.splits list.splits)
  next
    case False
    then have ne: "length (ownedDeployments controlplane c) \<noteq> 1" using owned by simp
    from False assms l rl show ?thesis
      using ne
      by (auto simp: ensureDeploymentForControlPlane_def Let_def numReplicasWhenNoDataplane_def
          CreateDeployment_def request_def list_ex_iff sameKey_def
          split: if_splits option.splits prod.splits)
  qed
qed

lemma labelObj_selected:
  "namespace = [] \<or> Namespace meta = namespace \<Longrightarrow>
   selected namespace GatewayOperatorControlledLabel managedBy (labelObj managedBy meta)"
  by (auto simp: selected_def labelObj_def update_conv')

lemma owner_is_set:
  "IsOwnedByRefUID (labelObj managedBy (SetOwnerForObject kind meta owner)) (UID owner)"
  by (simp add: IsOwnedByRefUID_def labelObj_def SetOwnerForObject_def)

text \<open>
  The Deployment ensurer of the DataPlane reconciler on the same anomaly: with more than
  one owned Deployment, and a generator that places the Deployment in the DataPlane's
  namespace, a call that returns without error leaves exactly one owned Deployment, the
  one it created.
\<close>

lemma duplicated_deployments_are_replaced:
  assumes "ensureDeploymentForDataPlane generate dataplane c = (Inr deployment, c')"
    and "1 < length (ownedDataPlaneDeployments dataplane c)"
    and "Namespace (dep_ObjectMeta (generate dataplane)) = Namespace (dp_ObjectMeta dataplane)"
  shows "ownedDataPlaneDeployments dataplane c' = [deployment]"
proof -
  let ?ns = "Namespace (dp_ObjectMeta dataplane)"
  let ?sel = "\<lambda>d. selected ?ns GatewayOperatorControlledLabel DataPlaneManagedLabelValue
                  (dep_ObjectMeta d)"
  let ?gen = "(generate dataplane)\<lparr>dep_ObjectMeta :=
                 labelObj DataPlaneManagedLabelValue
                   (SetOwnerForObject ''DataPlane'' (dep_ObjectMeta (generate dataplane))
                      (dp_ObjectMeta dataplane))\<rparr>"
  have sel: "?sel ?gen"
    using assms(3) by (simp add: labelObj_selected SetOwnerForObject_def)
  have own: "IsOwnedByRefUID (dep_ObjectMeta ?gen) (UID (dp_ObjectMeta dataplane))"
    by (simp add: owner_is_set)
  have "c_Deployments c' = filter (\<lambda>d. \<not> ?sel d) (c_Deployments c) @ [?gen] \<and> deployment = ?gen"
    using assms(1,2)
    by (auto simp: ensureDeploymentForDataPlane_def ListDeploymentsForOwner_def
        ListDeployments_def DeleteAllOfDeployments_def CreateDeployment_def request_def
        ownedDataPlaneDeployments_def Let_def
        split: option.splits if_splits)
  then show ?thesis
    using sel own by (simp add: ownedDataPlaneDeployments_def)
qed

text \<open>
  A dormant pass does not fail by itself: when no request is answered with a fault and
  the ControlPlane has no DataPlane reference, the ensurer returns without error.
\<close>

lemma selected_has_labels: "selected ns l v meta \<Longrightarrow> Labels meta \<noteq> None"
  by (auto simp: selected_def split: option.splits)

lemma EnsureObjectMetaIsUpdated_total:
  "Labels existing \<noteq> None \<Longrightarrow>
   \<exists>updated meta. EnsureObjectMetaIsUpdated existing generated = Inr (updated, meta) \<and>
     Name meta = Name existing \<and> Namespace meta = Namespace existing"
  by (auto simp: EnsureObjectMetaIsUpdated_def Let_def split: option.splits)

lemma UpdateDeployment_total:
  assumes "c_faults c (c_requests c) = None"
    and "d \<in> set (c_Deployments c)" and "sameKey (dep_ObjectMeta d) (dep_ObjectMeta deployment)"
  shows "\<exists>c'. UpdateDeployment deployment c = (None, c')"
  using assms by (auto simp: UpdateDeployment_def request_def list_ex_iff)

lemma dormant_pass_succeeds:
  assumes "c_faults c = (\<lambda>_. None)"
    and "cpo_DataPlane (cp_Spec controlplane) = None \<or>
         cpo_DataPlane (cp_Spec controlplane) = Some []"
  shows "\<exists>changed deployment c'.
           ensureDeploymentForControlPlane generate controlplane serviceAccountName c =
             (Inr (changed, deployment), c')"
proof -
  let ?owned = "ownedDeployments controlplane c"
  let ?c1 = "c\<lparr>c_requests := Suc (c_requests c)\<rparr>"
  have l: "ListDeploymentsForOwner GatewayOperatorControlledLabel ControlPlaneManagedLabelValue
     (Namespace (cp_ObjectMeta controlplane)) (UID (cp_ObjectMeta controlplane)) c =
       (Inr ?owned, ?c1)"
    using assms(1)
    by (simp add: ListDeploymentsForOwner_def ListDeployments_def ownedDeployments_def request_def)
  show ?thesis
  proof (cases "length ?owned = 1")
    case True
    then obtain d where one: "?owned = [d]" by (cases ?owned) auto
    then have "d \<in> set ?owned" by simp
    then have stored: "d \<in> set (c_Deployments c)"
      and lab: "Labels (dep_ObjectMeta d) \<noteq> None"
      by (auto simp: ownedDeployments_def dest: selected_has_labels)
    let ?gen = "labelObj ControlPlaneManagedLabelValue
                  (SetOwnerForObject ''ControlPlane''
                     (dep_ObjectMeta (generate controlplane serviceAccountName))
                     (cp_ObjectMeta controlplane))"
    from EnsureObjectMetaIsUpdated_total [OF lab, of ?gen]
    obtain updated meta where
      em: "EnsureObjectMetaIsUpdated (dep_ObjectMeta d) ?gen = Inr (updated, meta)"
      and key: "Name meta = Name (dep_ObjectMeta d)" "Namespace meta = Namespace (dep_ObjectMeta d)"
      by blast
    have upd: "\<And>x. dep_ObjectMeta x = meta \<Longrightarrow> \<exists>c'. UpdateDeployment x ?c1 = (None, c')"
      using UpdateDeployment_total [of ?c1 d] stored key assms(1)
      by (simp add: sameKey_def)
    from upd [of "d\<lparr>dep_ObjectMeta := meta, dep_Replicas := Some 0\<rparr>"]
    obtain ca where ua: "UpdateDeployment (d\<lparr>dep_ObjectMeta := meta, dep_Replicas := Some 0\<rparr>) ?c1 =
        (None, ca)" by auto
    from upd [of "d\<lparr>dep_ObjectMeta := meta\<rparr>"]
    obtain cb where ub: "UpdateDeployment (d\<lparr>dep_ObjectMeta := meta\<rparr>) ?c1 = (None, cb)" by auto
    from assms(2) l one em ua ub show ?thesis
      by (auto simp: ensureDeploymentForControlPlane_def Let_def updateIfChanged_def
          numReplicasWhenNoDataplane_def)
  next
    case False
    with assms l show ?thesis
      by (auto simp: ensureDeploymentForControlPlane_def Let_def DeleteAllOfDeployments_def
          CreateDeployment_def request_def)
  qed
qed

text \<open>
  C2.  A scheduled Gateway with a provisioned DataPlane owns two ControlPlanes.  One pass
  of the Gateway reconciler requeues; afterwards the Gateway owns three ControlPlanes
  (the two it had and a generated one) and its DataPlane is gone.
\<close>

theorem duplicated_controlplanes_are_not_deleted:
  "map_sum id (map (Name \<circ> cp_ObjectMeta))
     (fst (ListControlPlanesForGateway scheduledGateway duplicatedControlPlanes)) =
     Inr [''gw-controlplane-a'', ''gw-controlplane-b''] \<and>
   fst (GatewayReconcile exampleGatewayReconciler ''default'' ''gw'' duplicatedControlPlanes) =
     (requeueNow exampleGatewayReconciler, None) \<and>
   map_sum id (map (Name \<circ> cp_ObjectMeta))
     (fst (ListControlPlanesForGateway scheduledGateway
        (snd (GatewayReconcile exampleGatewayReconciler ''default'' ''gw''
           duplicatedControlPlanes)))) =
     Inr [''gw-controlplane-a'', ''gw-controlplane-b'', []] \<and>
   c_DataPlanes duplicatedControlPlanes = [ownedDataPlane ConditionTrue] \<and>
   c_DataPlanes (snd (GatewayReconcile exampleGatewayReconciler ''default'' ''gw''
     duplicatedControlPlanes)) = []"
  by code_simp



text \<open>
  C6 as stated fails.  The Service has a load-balancer address and a ClusterIP, and the
  Gateway gets both.
\<close>

theorem both_addresses_are_listed:
  "map addr_Value (gw_Addresses (snd (fst (ensureGatewayMarkedReady exampleGatewayReconciler
      scheduledGateway (ownedDataPlane ConditionTrue) readyToMark)))) =
     [''203.0.113.5'', ''10.0.0.7''] \<and>
   map (map addr_Value \<circ> gw_Addresses)
     (c_Gateways (snd (GatewayReconcile exampleGatewayReconciler ''default'' ''gw'' readyToMark))) =
     [[''203.0.113.5'', ''10.0.0.7'']]"
  by code_simp

lemma pairI: "fst p = a \<Longrightarrow> p = (a, snd p)"
  by (cases p) simp



lemma readyToMark_services:
  "fst (ListServicesForOwner GatewayOperatorControlledLabel DataPlaneManagedLabelValue
          (Namespace (dp_ObjectMeta (ownedDataPlane ConditionTrue)))
          (UID (dp_ObjectMeta (ownedDataPlane ConditionTrue))) readyToMark) =
     Inr [ownedService [\<lparr>ing_IP = ''203.0.113.5'', ing_Hostname = []\<rparr>]]"
  by code_simp

theorem ready_mark_replaces_condition_list_witness:
  "\<not> g_IsGatewayReady exampleGatewayReconciler scheduledGateway \<and>
   svc_ClusterIP (ownedService [\<lparr>ing_IP = ''203.0.113.5'', ing_Hostname = []\<rparr>]) \<noteq> [] \<and>
   gw_Conditions scheduledGateway = [exampleCondition ''Scheduled'' ConditionTrue ''Scheduled''] \<and>
   gw_Conditions (snd (fst (ensureGatewayMarkedReady exampleGatewayReconciler scheduledGateway
      (ownedDataPlane ConditionTrue) readyToMark))) =
     [\<lparr>cond_Type = ''Ready'', cond_Status = ConditionTrue,
       cond_ObservedGeneration = Generation (gw_ObjectMeta scheduledGateway),
       cond_LastTransitionTime = g_now exampleGatewayReconciler, cond_Reason = ''Ready'',
       cond_Message = []\<rparr>]"
proof -
  have h1: "\<not> g_IsGatewayReady exampleGatewayReconciler scheduledGateway"
    by code_simp
  have h3: "svc_ClusterIP (ownedService [\<lparr>ing_IP = ''203.0.113.5'', ing_Hostname = []\<rparr>]) \<noteq> []"
    by code_simp
  have h4: "gw_Conditions scheduledGateway =
      [exampleCondition ''Scheduled'' ConditionTrue ''Scheduled'']"
    by code_simp
  from ready_mark_replaces_condition_list [OF h1 pairI [OF readyToMark_services] h3] h1 h3 h4
  show ?thesis by blast
qed

theorem gateway_addresses_from_service_witness:
  "\<not> g_IsGatewayReady exampleGatewayReconciler scheduledGateway \<and>
   svc_ClusterIP (ownedService [\<lparr>ing_IP = ''203.0.113.5'', ing_Hostname = []\<rparr>]) \<noteq> [] \<and>
   map addr_Value (gw_Addresses (snd (fst (ensureGatewayMarkedReady exampleGatewayReconciler
      scheduledGateway (ownedDataPlane ConditionTrue) readyToMark)))) =
     [''203.0.113.5'', ''10.0.0.7'']"
proof -
  have h1: "\<not> g_IsGatewayReady exampleGatewayReconciler scheduledGateway"
    by code_simp
  have h3: "svc_ClusterIP (ownedService [\<lparr>ing_IP = ''203.0.113.5'', ing_Hostname = []\<rparr>]) \<noteq> []"
    by code_simp
  from gateway_addresses_from_service [OF h1 pairI [OF readyToMark_services] h3] h1 h3
  show ?thesis by (simp add: ownedService_def)
qed

theorem dormant_controlplane_deployment_witness:
  "fst (ensureDeploymentForControlPlane exampleGenerator (exampleControlPlane None) ''sa''
          (clusterWithDeployments [ownedDeployment (Some 3)])) =
     Inr (True, ownedDeployment (Some 0)) \<and>
   dep_Replicas (ownedDeployment (Some 0)) = Some 0 \<and>
   list_ex (\<lambda>stored. sameKey (dep_ObjectMeta stored) (dep_ObjectMeta (ownedDeployment (Some 0))) \<and>
                      dep_Replicas stored = Some 0)
     (c_Deployments (snd (ensureDeploymentForControlPlane exampleGenerator
        (exampleControlPlane None) ''sa'' (clusterWithDeployments [ownedDeployment (Some 3)])))) \<and>
   ownedDeployments (exampleControlPlane (Some ''gw-dataplane''))
     (clusterWithDeployments [ownedDeployment (Some 0)]) = [ownedDeployment (Some 0)] \<and>
   fst (ensureDeploymentForControlPlane exampleGenerator (exampleControlPlane (Some ''gw-dataplane''))
          ''sa'' (clusterWithDeployments [ownedDeployment (Some 0)])) =
     Inr (True, (ownedDeployment None)\<lparr>dep_Containers :=
            [\<lparr>ctr_Image = ''kong/kubernetes-ingress-controller'', ctr_Env = []\<rparr>]\<rparr>) \<and>
   list_ex (\<lambda>stored. dep_Replicas stored = None)
     (c_Deployments (snd (ensureDeploymentForControlPlane exampleGenerator
        (exampleControlPlane (Some ''gw-dataplane'')) ''sa''
        (clusterWithDeployments [ownedDeployment (Some 0)]))))"
proof -
  have h1: "fst (ensureDeploymentForControlPlane exampleGenerator (exampleControlPlane None) ''sa''
          (clusterWithDeployments [ownedDeployment (Some 3)])) =
     Inr (True, ownedDeployment (Some 0))"
    by code_simp
  have n: "cpo_DataPlane (cp_Spec (exampleControlPlane None)) = None \<or>
           cpo_DataPlane (cp_Spec (exampleControlPlane None)) = Some []"
    by (simp add: exampleControlPlane_def)
  have o: "ownedDeployments (exampleControlPlane (Some ''gw-dataplane''))
     (clusterWithDeployments [ownedDeployment (Some 0)]) = [ownedDeployment (Some 0)]"
    by code_simp
  have h2: "fst (ensureDeploymentForControlPlane exampleGenerator
          (exampleControlPlane (Some ''gw-dataplane''))
          ''sa'' (clusterWithDeployments [ownedDeployment (Some 0)])) =
     Inr (True, (ownedDeployment None)\<lparr>dep_Containers :=
            [\<lparr>ctr_Image = ''kong/kubernetes-ingress-controller'', ctr_Env = []\<rparr>]\<rparr>)"
    by code_simp
  have s: "cpo_DataPlane (cp_Spec (exampleControlPlane (Some ''gw-dataplane''))) \<noteq> None \<and>
          cpo_DataPlane (cp_Spec (exampleControlPlane (Some ''gw-dataplane''))) \<noteq> Some [] \<and>
          list_all (\<lambda>existing. dep_Replicas existing = Some 0)
            (ownedDeployments (exampleControlPlane (Some ''gw-dataplane''))
               (clusterWithDeployments [ownedDeployment (Some 0)])) \<and>
          length (ownedDeployments (exampleControlPlane (Some ''gw-dataplane''))
               (clusterWithDeployments [ownedDeployment (Some 0)])) = 1"
    unfolding o by (simp add: exampleControlPlane_def ownedDeployment_def)
  from dormant_controlplane_deployment [OF pairI [OF h1]] n
  have d1: "dep_Replicas (ownedDeployment (Some 0)) = Some 0 \<and>
     list_ex (\<lambda>stored. sameKey (dep_ObjectMeta stored) (dep_ObjectMeta (ownedDeployment (Some 0))) \<and>
                      dep_Replicas stored = Some 0)
     (c_Deployments (snd (ensureDeploymentForControlPlane exampleGenerator
        (exampleControlPlane None) ''sa'' (clusterWithDeployments [ownedDeployment (Some 3)]))))"
    by blast
  from dormant_controlplane_deployment [OF pairI [OF h2]] s
  have "list_ex (\<lambda>stored. sameKey (dep_ObjectMeta stored)
            (dep_ObjectMeta ((ownedDeployment None)\<lparr>dep_Containers :=
              [\<lparr>ctr_Image = ''kong/kubernetes-ingress-controller'', ctr_Env = []\<rparr>]\<rparr>)) \<and>
          dep_Replicas stored = None)
     (c_Deployments (snd (ensureDeploymentForControlPlane exampleGenerator
        (exampleControlPlane (Some ''gw-dataplane'')) ''sa''
        (clusterWithDeployments [ownedDeployment (Some 0)]))))"
    by blast
  then have d2: "list_ex (\<lambda>stored. dep_Replicas stored = None)
     (c_Deployments (snd (ensureDeploymentForControlPlane exampleGenerator
        (exampleControlPlane (Some ''gw-dataplane'')) ''sa''
        (clusterWithDeployments [ownedDeployment (Some 0)]))))"
    by (auto simp: list_ex_iff)
  from h1 d1 o h2 d2 show ?thesis by blast
qed

end
